theory Spec2Isabelle
  imports Complex_Main "HOL-Library.Word"
begin

section \<open>The Python uops emulator (tinygrad/runtime/ops\_python.py)\<close>

text \<open>
  A shallow embedding of \<^verbatim>\<open>PythonProgram.__call__\<close> and of the helpers \<^verbatim>\<open>_load\<close>,
  \<^verbatim>\<open>load\<close> and \<^verbatim>\<open>_store\<close>. Python objects with identity (the lane lists, the
  bytearrays behind the memoryviews) live in two explicit stores; every exception of the
  source is an error value; the interpreter's while loop is a step function iterated
  under a step budget.
\<close>

subsection \<open>Errors\<close>

text \<open>
  The exceptions the interpreter can raise. \<open>LoadOutOfBounds\<close> and
  \<open>StoreOutOfBounds\<close> are the two \<^verbatim>\<open>IndexError\<close>s raised by \<^verbatim>\<open>_load\<close> and
  \<^verbatim>\<open>_store\<close> (their message text is not modelled); \<open>IndexError\<close> is every other
  \<^verbatim>\<open>IndexError\<close>. \<open>StructError\<close> is \<^verbatim>\<open>struct.error\<close>. \<open>Unmodelled\<close> marks the one
  place where the embedding does not follow Python (a signed cast to a type of item size
  0, where Python computes with the float \<^verbatim>\<open>2**-1\<close>).
\<close>

datatype error =
    LoadOutOfBounds
  | StoreOutOfBounds
  | IndexError
  | KeyError
  | AssertionError
  | TypeError
  | ValueError
  | OverflowError
  | ZeroDivisionError
  | StructError
  | Unmodelled

fun bindE :: "error + 'a \<Rightarrow> ('a \<Rightarrow> error + 'b) \<Rightarrow> error + 'b" where
  "bindE (Inl e) f = Inl e"
| "bindE (Inr x) f = f x"

text \<open>A list comprehension whose element expression may raise: left to right.\<close>

fun mapE :: "('a \<Rightarrow> error + 'b) \<Rightarrow> 'a list \<Rightarrow> error + 'b list" where
  "mapE f [] = Inr []"
| "mapE f (x # xs) = bindE (f x) (\<lambda>y. bindE (mapE f xs) (\<lambda>ys. Inr (y # ys)))"

text \<open>A for loop whose body may raise and that threads a state.\<close>

fun foldE :: "('a \<Rightarrow> 's \<Rightarrow> error + 's) \<Rightarrow> 'a list \<Rightarrow> 's \<Rightarrow> error + 's" where
  "foldE f [] s = Inr s"
| "foldE f (x # xs) s = bindE (f x s) (foldE f xs)"

text \<open>\<^verbatim>\<open>assert c\<close>.\<close>

definition assertE :: "bool \<Rightarrow> error + unit" where
  "assertE c = (if c then Inr () else Inl AssertionError)"

subsection \<open>Python values\<close>

text \<open>
  The operation tags of \<^verbatim>\<open>tinygrad.ops\<close> (\<^verbatim>\<open>UnaryOps\<close>, \<^verbatim>\<open>BinaryOps\<close>,
  \<^verbatim>\<open>TernaryOps\<close>). The enumerations are declared outside this file; a member is its
  enumeration and its name.
\<close>

datatype alu_op = UnaryOps string | BinaryOps string | TernaryOps string

definition CMPNE :: alu_op where "CMPNE = BinaryOps ''CMPNE''"
definition CMPLT :: alu_op where "CMPLT = BinaryOps ''CMPLT''"
definition WHERE :: alu_op where "WHERE = TernaryOps ''WHERE''"
definition ADD :: alu_op where "ADD = BinaryOps ''ADD''"

text \<open>
  Immutable Python values: what an instruction's \<^verbatim>\<open>arg\<close> can be after unpickling, and
  what a lane holds. The type \<open>'f\<close> stands for Python's floats, which stay abstract.
\<close>

datatype 'f lit =
    LInt int
  | LBool bool
  | LFloat 'f
  | LNone
  | LStr string
  | LTuple "'f lit list"
  | LOp alu_op

text \<open>
  A value is an immutable value, a reference to a Python list (an address in the list
  store) or a memoryview: the bytearray it views (an address in the byte store) and the
  struct format character it was cast to.
\<close>

datatype 'f val =
    VLit "'f lit"
  | VList nat
  | VView nat char

abbreviation VInt :: "int \<Rightarrow> 'f val" where "VInt n \<equiv> VLit (LInt n)"
abbreviation VBool :: "bool \<Rightarrow> 'f val" where "VBool b \<equiv> VLit (LBool b)"

type_synonym byte = "8 word"

text \<open>The two stores: Python list objects, and the bytes of the bytearrays.\<close>

record 'f heap =
  lists :: "'f val list list"
  mem :: "byte list list"

subsection \<open>Types (tinygrad.dtype)\<close>

text \<open>
  Modelled from the spec: \<^verbatim>\<open>DType\<close> and \<^verbatim>\<open>ImageDType\<close> are declared in
  \<^verbatim>\<open>tinygrad.dtype\<close>, outside this file. The record holds the attributes the
  interpreter reads: \<^verbatim>\<open>itemsize\<close>, \<^verbatim>\<open>fmt\<close>, \<^verbatim>\<open>count\<close>, the \<^verbatim>\<open>shape\<close> of an image
  type (\<open>Some\<close> exactly for an \<^verbatim>\<open>ImageDType\<close>), and the class of its scalar type, which
  is what \<^verbatim>\<open>dtypes.is_int\<close>, \<^verbatim>\<open>dtypes.is_unsigned\<close> and \<^verbatim>\<open>dtypes.is_float\<close> answer.
\<close>

datatype dkind = KBool | KSigned | KUnsigned | KFloat | KOther

record dtype =
  dname :: string
  kind :: dkind
  itemsize :: nat
  fmt :: "char option"
  count :: nat
  shape :: "int list option"

definition is_unsigned :: "dtype \<Rightarrow> bool" where
  "is_unsigned d = (kind d = KUnsigned)"

definition is_int :: "dtype \<Rightarrow> bool" where
  "is_int d = (kind d = KSigned \<or> kind d = KUnsigned)"

definition is_float :: "dtype \<Rightarrow> bool" where
  "is_float d = (kind d = KFloat)"

definition is_image :: "dtype \<Rightarrow> bool" where
  "is_image d = (shape d \<noteq> None)"

subsection \<open>Collaborators outside this file\<close>

datatype binop = Add | Sub | Mul | Mod
datatype cmpop = Lt | Ge | Eq

text \<open>
  Everything the interpreter calls that is neither in this file nor fixed by Python's
  integers: the arithmetic primitive \<^verbatim>\<open>exec_alu\<close>, the tensor-core model
  \<^verbatim>\<open>TensorCoreLayout(warp_size, inp).wmma_model\<close>, \<^verbatim>\<open>dtypes.as_const\<close>, the
  \<^verbatim>\<open>truncate\<close> table, and Python's float arithmetic, float comparison, float truth
  value and float struct codec. They are parameters of the embedding.
\<close>

record 'f ext =
  exec_alu :: "'f lit \<Rightarrow> dtype \<Rightarrow> 'f val list \<Rightarrow> error + 'f val"
  wmma_model :: "nat \<Rightarrow> 'f val list \<Rightarrow> 'f val \<Rightarrow> 'f val list list \<Rightarrow> error + ('f val \<times> 'f val list list)"
  as_const :: "'f val \<Rightarrow> dtype \<Rightarrow> error + 'f val"
  truncate_tab :: "dtype \<Rightarrow> 'f val \<Rightarrow> error + 'f val"
  float_binop :: "binop \<Rightarrow> 'f lit \<Rightarrow> 'f lit \<Rightarrow> error + 'f lit"
  float_cmp :: "cmpop \<Rightarrow> 'f lit \<Rightarrow> 'f lit \<Rightarrow> bool"
  float_truthy :: "'f \<Rightarrow> bool"
  float_pack :: "char \<Rightarrow> 'f lit \<Rightarrow> error + byte list"
  float_unpack :: "char \<Rightarrow> byte list \<Rightarrow> 'f"

subsection \<open>Python's arithmetic on lane values\<close>

text \<open>\<^verbatim>\<open>__index__\<close>: the integer an \<^verbatim>\<open>int\<close> or a \<^verbatim>\<open>bool\<close> stands for.\<close>

fun as_index :: "'f lit \<Rightarrow> int option" where
  "as_index (LInt n) = Some n"
| "as_index (LBool b) = Some (if b then 1 else 0)"
| "as_index _ = None"

fun is_number :: "'f lit \<Rightarrow> bool" where
  "is_number (LInt n) = True"
| "is_number (LBool b) = True"
| "is_number (LFloat x) = True"
| "is_number _ = False"

fun int_binop :: "binop \<Rightarrow> int \<Rightarrow> int \<Rightarrow> error + int" where
  "int_binop Add x y = Inr (x + y)"
| "int_binop Sub x y = Inr (x - y)"
| "int_binop Mul x y = Inr (x * y)"
| "int_binop Mod x y = (if y = 0 then Inl ZeroDivisionError else Inr (x mod y))"

fun int_cmp :: "cmpop \<Rightarrow> int \<Rightarrow> int \<Rightarrow> bool" where
  "int_cmp Lt x y = (x < y)"
| "int_cmp Ge x y = (x \<ge> y)"
| "int_cmp Eq x y = (x = y)"

text \<open>
  \<^verbatim>\<open>a + b\<close>, \<^verbatim>\<open>a - b\<close>, \<^verbatim>\<open>a * b\<close>, \<^verbatim>\<open>a % b\<close> where the source applies them: a lane value
  against an integer. Two integers give Python's unbounded integer arithmetic, a float
  goes to the float arithmetic, anything else (a list, a memoryview, a string, a tuple,
  \<^verbatim>\<open>None\<close>) raises \<^verbatim>\<open>TypeError\<close>.
\<close>

definition lit_binop :: "'f ext \<Rightarrow> binop \<Rightarrow> 'f lit \<Rightarrow> 'f lit \<Rightarrow> error + 'f lit" where
  "lit_binop ext op a b =
     (case (as_index a, as_index b) of
        (Some x, Some y) \<Rightarrow> bindE (int_binop op x y) (\<lambda>z. Inr (LInt z))
      | _ \<Rightarrow> if is_number a \<and> is_number b then float_binop ext op a b else Inl TypeError)"

fun py_binop :: "'f ext \<Rightarrow> binop \<Rightarrow> 'f val \<Rightarrow> 'f val \<Rightarrow> error + 'f val" where
  "py_binop ext op (VLit a) (VLit b) = bindE (lit_binop ext op a b) (\<lambda>c. Inr (VLit c))"
| "py_binop ext op _ _ = Inl TypeError"

text \<open>\<^verbatim>\<open>a < b\<close> and \<^verbatim>\<open>a >= b\<close> of a lane value against an integer.\<close>

definition lit_cmp :: "'f ext \<Rightarrow> cmpop \<Rightarrow> 'f lit \<Rightarrow> 'f lit \<Rightarrow> error + bool" where
  "lit_cmp ext op a b =
     (case (as_index a, as_index b) of
        (Some x, Some y) \<Rightarrow> Inr (int_cmp op x y)
      | _ \<Rightarrow> if is_number a \<and> is_number b then Inr (float_cmp ext op a b) else Inl TypeError)"

fun py_cmp :: "'f ext \<Rightarrow> cmpop \<Rightarrow> 'f val \<Rightarrow> 'f val \<Rightarrow> error + bool" where
  "py_cmp ext op (VLit a) (VLit b) = lit_cmp ext op a b"
| "py_cmp ext op _ _ = Inl TypeError"

text \<open>
  \<^verbatim>\<open>a == b\<close> with a number on the left (the loop variable after \<^verbatim>\<open>+= 1\<close>): never
  raises, and is false against anything that is not a number.
\<close>

fun py_eq_num :: "'f ext \<Rightarrow> 'f val \<Rightarrow> 'f val \<Rightarrow> bool" where
  "py_eq_num ext (VLit a) (VLit b) =
     (case (as_index a, as_index b) of
        (Some x, Some y) \<Rightarrow> x = y
      | _ \<Rightarrow> is_number a \<and> is_number b \<and> float_cmp ext Eq a b)"
| "py_eq_num ext _ _ = False"

subsection \<open>The stores: list objects and memoryviews\<close>

text \<open>
  An address that was never allocated cannot be reached by a run; reading one is
  \<open>Unmodelled\<close>.
\<close>

definition list_at :: "'f heap \<Rightarrow> nat \<Rightarrow> error + 'f val list" where
  "list_at h a = (if a < length (lists h) then Inr (lists h ! a) else Inl Unmodelled)"

definition bytes_at :: "'f heap \<Rightarrow> nat \<Rightarrow> error + byte list" where
  "bytes_at h b = (if b < length (mem h) then Inr (mem h ! b) else Inl Unmodelled)"

text \<open>A new list object: \<^verbatim>\<open>[...]\<close>, \<^verbatim>\<open>[x] * n\<close>, \<^verbatim>\<open>list(...)\<close>.\<close>

definition alloc_list :: "'f heap \<Rightarrow> 'f val list \<Rightarrow> 'f val \<times> 'f heap" where
  "alloc_list h xs = (VList (length (lists h)), h\<lparr>lists := lists h @ [xs]\<rparr>)"

text \<open>A new bytearray of \<open>n\<close> zero bytes: \<^verbatim>\<open>bytearray(n)\<close>.\<close>

definition alloc_bytes :: "'f heap \<Rightarrow> nat \<Rightarrow> nat \<times> 'f heap" where
  "alloc_bytes h n = (length (mem h), h\<lparr>mem := mem h @ [replicate n 0]\<rparr>)"

text \<open>
  The struct format characters of tinygrad's types, with their native sizes (a 64-bit
  little-endian platform): what \<^verbatim>\<open>struct.calcsize\<close> and \<^verbatim>\<open>memoryview.cast\<close> know
  about them. The characters \<^verbatim>\<open>c\<close>, \<^verbatim>\<open>s\<close>, \<^verbatim>\<open>p\<close>, \<^verbatim>\<open>x\<close>, \<^verbatim>\<open>n\<close>, \<^verbatim>\<open>N\<close>, \<^verbatim>\<open>P\<close>
  are valid in Python and not modelled; any other character is a bad format.
\<close>

datatype fmt_class = FSigned | FUnsigned | FBool | FFloat

definition fmt_table :: "(char \<times> fmt_class \<times> nat) list" where
  "fmt_table =
     [(CHR ''b'', FSigned, 1), (CHR ''B'', FUnsigned, 1), (CHR ''?'', FBool, 1),
      (CHR ''h'', FSigned, 2), (CHR ''H'', FUnsigned, 2),
      (CHR ''i'', FSigned, 4), (CHR ''I'', FUnsigned, 4),
      (CHR ''l'', FSigned, 8), (CHR ''L'', FUnsigned, 8),
      (CHR ''q'', FSigned, 8), (CHR ''Q'', FUnsigned, 8),
      (CHR ''e'', FFloat, 2), (CHR ''f'', FFloat, 4), (CHR ''d'', FFloat, 8)]"

definition fmt_info :: "error \<Rightarrow> char \<Rightarrow> error + fmt_class \<times> nat" where
  "fmt_info bad c =
     (case map_of fmt_table c of
        Some ci \<Rightarrow> Inr ci
      | None \<Rightarrow> if c \<in> set ''cspxnNP'' then Inl Unmodelled else Inl bad)"

text \<open>Little-endian two's complement: the \<open>n\<close> low bytes of an integer, and back.\<close>

fun le_bytes :: "nat \<Rightarrow> int \<Rightarrow> byte list" where
  "le_bytes 0 x = []"
| "le_bytes (Suc n) x = word_of_int x # le_bytes n (x div 256)"

fun le_int :: "byte list \<Rightarrow> int" where
  "le_int [] = 0"
| "le_int (b # bs) = uint b + 256 * le_int bs"

text \<open>
  The truth value of a Python object (\<^verbatim>\<open>if gate\<close>, and what the format \<^verbatim>\<open>?\<close> packs).
\<close>

fun lit_truthy :: "'f ext \<Rightarrow> 'f lit \<Rightarrow> bool" where
  "lit_truthy ext (LInt n) = (n \<noteq> 0)"
| "lit_truthy ext (LBool b) = b"
| "lit_truthy ext (LFloat x) = float_truthy ext x"
| "lit_truthy ext LNone = False"
| "lit_truthy ext (LStr s) = (s \<noteq> [])"
| "lit_truthy ext (LTuple t) = (t \<noteq> [])"
| "lit_truthy ext (LOp p) = True"

text \<open>\<^verbatim>\<open>len(m)\<close> of a memoryview of format \<open>c\<close> over bytearray \<open>b\<close>.\<close>

definition mv_len :: "'f heap \<Rightarrow> nat \<Rightarrow> char \<Rightarrow> error + nat" where
  "mv_len h b c =
     bindE (bytes_at h b) (\<lambda>bs. bindE (fmt_info ValueError c) (\<lambda>(cl, sz). Inr (length bs div sz)))"

fun py_len :: "'f heap \<Rightarrow> 'f val \<Rightarrow> error + nat" where
  "py_len h (VList a) = bindE (list_at h a) (\<lambda>xs. Inr (length xs))"
| "py_len h (VView b c) = mv_len h b c"
| "py_len h (VLit (LStr s)) = Inr (length s)"
| "py_len h (VLit (LTuple t)) = Inr (length t)"
| "py_len h (VLit _) = Inl TypeError"

fun py_truthy :: "'f ext \<Rightarrow> 'f heap \<Rightarrow> 'f val \<Rightarrow> error + bool" where
  "py_truthy ext h (VLit l) = Inr (lit_truthy ext l)"
| "py_truthy ext h v = bindE (py_len h v) (\<lambda>n. Inr (n \<noteq> 0))"

text \<open>
  One element in a struct format, as \<^verbatim>\<open>struct.pack\<close> and a memoryview's item
  assignment encode it. \<open>ety\<close> is the error for a value of the wrong type and \<open>erg\<close> the
  error for an integer out of the format's range: both \<^verbatim>\<open>struct.error\<close> for
  \<^verbatim>\<open>struct.pack\<close>, \<^verbatim>\<open>TypeError\<close> and \<^verbatim>\<open>ValueError\<close> for a memoryview.
\<close>

definition pack_int :: "error \<Rightarrow> error \<Rightarrow> nat \<Rightarrow> int \<Rightarrow> int \<Rightarrow> 'f val \<Rightarrow> error + byte list" where
  "pack_int ety erg sz lo hi v =
     (case v of
        VLit l \<Rightarrow>
          (case as_index l of
             Some x \<Rightarrow> if lo \<le> x \<and> x < hi then Inr (le_bytes sz x) else Inl erg
           | None \<Rightarrow> Inl ety)
      | _ \<Rightarrow> Inl ety)"

definition pack_item :: "'f ext \<Rightarrow> 'f heap \<Rightarrow> error \<Rightarrow> error \<Rightarrow> error \<Rightarrow> char \<Rightarrow> 'f val \<Rightarrow> error + byte list" where
  "pack_item ext h bad ety erg c v =
     bindE (fmt_info bad c) (\<lambda>(cl, sz).
       case cl of
         FSigned \<Rightarrow> pack_int ety erg sz (- (2 ^ (8 * sz - 1))) (2 ^ (8 * sz - 1)) v
       | FUnsigned \<Rightarrow> pack_int ety erg sz 0 (2 ^ (8 * sz)) v
       | FBool \<Rightarrow> bindE (py_truthy ext h v) (\<lambda>t. Inr [if t then 1 else 0])
       | FFloat \<Rightarrow>
           (case v of
              VLit l \<Rightarrow> if is_number l then float_pack ext c l else Inl ety
            | _ \<Rightarrow> Inl ety))"

definition unpack_item :: "'f ext \<Rightarrow> error \<Rightarrow> char \<Rightarrow> byte list \<Rightarrow> error + 'f val" where
  "unpack_item ext bad c bs =
     bindE (fmt_info bad c) (\<lambda>(cl, sz).
       case cl of
         FSigned \<Rightarrow>
           Inr (VInt (if le_int bs \<ge> 2 ^ (8 * sz - 1) then le_int bs - 2 ^ (8 * sz) else le_int bs))
       | FUnsigned \<Rightarrow> Inr (VInt (le_int bs))
       | FBool \<Rightarrow> Inr (VBool (le_int bs \<noteq> 0))
       | FFloat \<Rightarrow> Inr (VLit (LFloat (float_unpack ext c bs))))"

text \<open>Python's index normalisation: a negative index counts from the end.\<close>

definition py_index :: "nat \<Rightarrow> int \<Rightarrow> error + nat" where
  "py_index n i =
     (let j = (if i < 0 then i + int n else i)
      in if 0 \<le> j \<and> j < int n then Inr (nat j) else Inl IndexError)"

definition nthE :: "'a list \<Rightarrow> int \<Rightarrow> error + 'a" where
  "nthE xs i = bindE (py_index (length xs) i) (\<lambda>j. Inr (xs ! j))"

text \<open>The bytes of element \<open>j\<close> of a view whose elements have \<open>sz\<close> bytes.\<close>

definition item_bytes :: "nat \<Rightarrow> nat \<Rightarrow> byte list \<Rightarrow> byte list" where
  "item_bytes sz j bs = take sz (drop (j * sz) bs)"

definition put_bytes :: "nat \<Rightarrow> nat \<Rightarrow> byte list \<Rightarrow> byte list \<Rightarrow> byte list" where
  "put_bytes sz j new bs = take (j * sz) bs @ new @ drop (j * sz + sz) bs"

text \<open>\<^verbatim>\<open>v[i]\<close> for an integer \<open>i\<close>.\<close>

fun py_getitem :: "'f ext \<Rightarrow> 'f heap \<Rightarrow> 'f val \<Rightarrow> int \<Rightarrow> error + 'f val" where
  "py_getitem ext h (VList a) i = bindE (list_at h a) (\<lambda>xs. nthE xs i)"
| "py_getitem ext h (VView b c) i =
     bindE (bytes_at h b) (\<lambda>bs. bindE (fmt_info ValueError c) (\<lambda>(cl, sz).
       bindE (py_index (length bs div sz) i) (\<lambda>j. unpack_item ext ValueError c (item_bytes sz j bs))))"
| "py_getitem ext h (VLit (LStr s)) i = bindE (nthE s i) (\<lambda>ch. Inr (VLit (LStr [ch])))"
| "py_getitem ext h (VLit (LTuple t)) i = bindE (nthE t i) (\<lambda>l. Inr (VLit l))"
| "py_getitem ext h (VLit _) i = Inl TypeError"

text \<open>\<^verbatim>\<open>v[i] = x\<close> for an integer \<open>i\<close>: the store after the assignment.\<close>

fun py_setitem :: "'f ext \<Rightarrow> 'f heap \<Rightarrow> 'f val \<Rightarrow> int \<Rightarrow> 'f val \<Rightarrow> error + 'f heap" where
  "py_setitem ext h (VList a) i x =
     bindE (list_at h a) (\<lambda>xs. bindE (py_index (length xs) i) (\<lambda>j.
       Inr (h\<lparr>lists := (lists h)[a := xs[j := x]]\<rparr>)))"
| "py_setitem ext h (VView b c) i x =
     bindE (bytes_at h b) (\<lambda>bs. bindE (fmt_info ValueError c) (\<lambda>(cl, sz).
       bindE (py_index (length bs div sz) i) (\<lambda>j.
         bindE (pack_item ext h ValueError TypeError ValueError c x) (\<lambda>new.
           Inr (h\<lparr>mem := (mem h)[b := put_bytes sz j new bs]\<rparr>)))))"
| "py_setitem ext h (VLit _) i x = Inl TypeError"

text \<open>The elements an iteration over \<open>v\<close> yields (\<^verbatim>\<open>zip\<close>, \<^verbatim>\<open>enumerate\<close>, \<^verbatim>\<open>*v\<close>).\<close>

fun py_iter :: "'f ext \<Rightarrow> 'f heap \<Rightarrow> 'f val \<Rightarrow> error + 'f val list" where
  "py_iter ext h (VList a) = list_at h a"
| "py_iter ext h (VView b c) =
     bindE (bytes_at h b) (\<lambda>bs. bindE (fmt_info ValueError c) (\<lambda>(cl, sz).
       mapE (\<lambda>j. unpack_item ext ValueError c (item_bytes sz j bs)) [0..<length bs div sz]))"
| "py_iter ext h (VLit (LStr s)) = Inr (map (\<lambda>ch. VLit (LStr [ch])) s)"
| "py_iter ext h (VLit (LTuple t)) = Inr (map VLit t)"
| "py_iter ext h (VLit _) = Inl TypeError"

text \<open>\<^verbatim>\<open>m[i]\<close> and \<^verbatim>\<open>m[i] = v\<close> where the index is a lane value.\<close>

fun py_subscript :: "'f ext \<Rightarrow> 'f heap \<Rightarrow> 'f val \<Rightarrow> 'f val \<Rightarrow> error + 'f val" where
  "py_subscript ext h m (VLit l) =
     (case as_index l of Some k \<Rightarrow> py_getitem ext h m k | None \<Rightarrow> Inl TypeError)"
| "py_subscript ext h m _ = Inl TypeError"

fun py_assign_item :: "'f ext \<Rightarrow> 'f heap \<Rightarrow> 'f val \<Rightarrow> 'f val \<Rightarrow> 'f val \<Rightarrow> error + 'f heap" where
  "py_assign_item ext h m (VLit l) v =
     (case as_index l of Some k \<Rightarrow> py_setitem ext h m k v | None \<Rightarrow> Inl TypeError)"
| "py_assign_item ext h m _ v = Inl TypeError"

subsection \<open>The memory helpers \<^verbatim>\<open>_load\<close>, \<^verbatim>\<open>load\<close>, \<^verbatim>\<open>_store\<close>\<close>

text \<open>
  \<^verbatim>\<open>def _load(m, i):\<close>
  \<^verbatim>\<open>  if i < 0 or i >= len(m): raise IndexError(...)\<close>
  \<^verbatim>\<open>  return m[i]\<close>
\<close>

definition load_item :: "'f ext \<Rightarrow> 'f heap \<Rightarrow> 'f val \<Rightarrow> 'f val \<Rightarrow> error + 'f val" where
  "load_item ext h m i =
     bindE (py_cmp ext Lt i (VInt 0)) (\<lambda>neg.
       if neg then Inl LoadOutOfBounds
       else bindE (py_len h m) (\<lambda>n. bindE (py_cmp ext Ge i (VInt (int n))) (\<lambda>ge.
         if ge then Inl LoadOutOfBounds else py_subscript ext h m i)))"

text \<open>
  \<^verbatim>\<open>def _store(m, i, v):\<close>
  \<^verbatim>\<open>  if i < 0 or i >= len(m): raise IndexError(...)\<close>
  \<^verbatim>\<open>  m[i] = v\<close>
\<close>

definition store_item :: "'f ext \<Rightarrow> 'f heap \<Rightarrow> 'f val \<Rightarrow> 'f val \<Rightarrow> 'f val \<Rightarrow> error + 'f heap" where
  "store_item ext h m i v =
     bindE (py_cmp ext Lt i (VInt 0)) (\<lambda>neg.
       if neg then Inl StoreOutOfBounds
       else bindE (py_len h m) (\<lambda>n. bindE (py_cmp ext Ge i (VInt (int n))) (\<lambda>ge.
         if ge then Inl StoreOutOfBounds else py_assign_item ext h m i v)))"

text \<open>
  \<^verbatim>\<open>def load(inp, j=0):\<close>
  \<^verbatim>\<open>  if len(inp) == 4: return [_load(m, x+j) if gate else default for m,x,default,gate in zip(*inp)]\<close>
  \<^verbatim>\<open>  return [_load(m, x+j) for m,x in zip(inp[0], inp[1])]\<close>
\<close>

definition load_gated :: "'f ext \<Rightarrow> 'f heap \<Rightarrow> int \<Rightarrow> 'f val \<times> 'f val \<times> 'f val \<times> 'f val \<Rightarrow> error + 'f val" where
  "load_gated ext h j = (\<lambda>(m, x, default, gate).
     bindE (py_truthy ext h gate) (\<lambda>g.
       if g then bindE (py_binop ext Add x (VInt j)) (load_item ext h m) else Inr default))"

definition load_plain :: "'f ext \<Rightarrow> 'f heap \<Rightarrow> int \<Rightarrow> 'f val \<times> 'f val \<Rightarrow> error + 'f val" where
  "load_plain ext h j = (\<lambda>(m, x). bindE (py_binop ext Add x (VInt j)) (load_item ext h m))"

definition load :: "'f ext \<Rightarrow> 'f heap \<Rightarrow> 'f val list \<Rightarrow> int \<Rightarrow> error + 'f val list" where
  "load ext h inp j =
     (if length inp = 4 then
        bindE (mapE (py_iter ext h) inp) (\<lambda>cols.
          mapE (load_gated ext h j) (zip (cols ! 0) (zip (cols ! 1) (zip (cols ! 2) (cols ! 3)))))
      else
        bindE (nthE inp 0) (\<lambda>a. bindE (nthE inp 1) (\<lambda>b.
          bindE (py_iter ext h a) (\<lambda>ms. bindE (py_iter ext h b) (\<lambda>xs.
            mapE (load_plain ext h j) (zip ms xs))))))"

subsection \<open>Python's struct module on one repeated format\<close>

text \<open>
  \<^verbatim>\<open>struct.pack(str(n) + c, *args)\<close>: the format is compiled first, the number of
  arguments is checked against \<open>n\<close>, then each argument is encoded.
\<close>

definition struct_pack :: "'f ext \<Rightarrow> 'f heap \<Rightarrow> nat \<Rightarrow> char \<Rightarrow> 'f val list \<Rightarrow> error + byte list" where
  "struct_pack ext h n c args =
     bindE (fmt_info StructError c) (\<lambda>ci.
       if length args \<noteq> n then Inl StructError
       else bindE (mapE (pack_item ext h StructError StructError StructError c) args)
              (\<lambda>bss. Inr (concat bss)))"

text \<open>
  \<^verbatim>\<open>list(struct.unpack(str(n) + c, bs))\<close>: the buffer must have exactly the size of the
  format.
\<close>

definition struct_unpack :: "'f ext \<Rightarrow> nat \<Rightarrow> char \<Rightarrow> byte list \<Rightarrow> error + 'f val list" where
  "struct_unpack ext n c bs =
     bindE (fmt_info StructError c) (\<lambda>(cl, sz).
       if length bs \<noteq> n * sz then Inl StructError
       else mapE (\<lambda>j. unpack_item ext StructError c (item_bytes sz j bs)) [0..<n])"

subsection \<open>Programs and execution contexts\<close>

text \<open>
  The members of \<^verbatim>\<open>UOps\<close> the interpreter names (\<open>CONST'\<close> is \<^verbatim>\<open>UOps.CONST\<close>); \<open>OTHER\<close>
  is any other member of the enumeration (which is declared in \<^verbatim>\<open>tinygrad.ops\<close>).
\<close>

datatype uops =
    DEFINE_GLOBAL | DEFINE_LOCAL | DEFINE_VAR | SPECIAL | CONST' | DEFINE_ACC
  | RANGE | ENDRANGE | BARRIER | IF | ENDIF
  | VECTORIZE | CAST | BITCAST | LOAD | STORE | ASSIGN | GEP | WMMA | ALU
  | OTHER string

text \<open>\<^verbatim>\<open>self.uops: List[Tuple[UOps, Optional[DType], List[int], Any]]\<close>\<close>

type_synonym 'f uop = "uops \<times> dtype option \<times> int list \<times> 'f lit"

definition void_ops :: "uops set" where
  "void_ops = {STORE, ENDRANGE, BARRIER, IF, ENDIF}"

text \<open>
  The variables of one pass of the \<^verbatim>\<open>for idxs\<close> loop: \<^verbatim>\<open>ul\<close>, \<^verbatim>\<open>dl\<close>, \<^verbatim>\<open>pbufs\<close>,
  \<^verbatim>\<open>pvals\<close>, \<^verbatim>\<open>i\<close> (here \<open>pc\<close>), \<^verbatim>\<open>loop_ends\<close>, and the two stores. \<open>pbufs\<close> holds
  the addresses of the caller's bytearrays: a buffer argument is a
  \<^verbatim>\<open>memoryview(bytearray(size))\<close>, as \<^verbatim>\<open>PythonAllocator._alloc\<close> makes it.
\<close>

record 'f ctx =
  ul :: "int \<rightharpoonup> 'f val"
  dl :: "int \<rightharpoonup> dtype"
  pbufs :: "nat list"
  pvals :: "int list"
  pc :: int
  loop_ends :: "int \<rightharpoonup> int"
  hp :: "'f heap"

text \<open>
  \<^verbatim>\<open>[tab[v] for v in idp if self.uops[v][0] not in void_ops]\<close>, for \<^verbatim>\<open>tab\<close> one of
  \<^verbatim>\<open>ul\<close> and \<^verbatim>\<open>dl\<close>.
\<close>

fun operands :: "'f uop list \<Rightarrow> (int \<rightharpoonup> 'a) \<Rightarrow> int list \<Rightarrow> error + 'a list" where
  "operands prog tab [] = Inr []"
| "operands prog tab (v # vs) =
     bindE (nthE prog v) (\<lambda>u.
       if fst u \<in> void_ops then operands prog tab vs
       else (case tab v of
               None \<Rightarrow> Inl KeyError
             | Some x \<Rightarrow> bindE (operands prog tab vs) (\<lambda>xs. Inr (x # xs))))"

text \<open>\<^verbatim>\<open>all_same\<close> of \<^verbatim>\<open>tinygrad.helpers\<close>: \<^verbatim>\<open>all(x == items[0] for x in items)\<close>.\<close>

fun all_same :: "'a list \<Rightarrow> bool" where
  "all_same [] = True"
| "all_same (x # xs) = list_all (\<lambda>y. y = x) xs"

subsection \<open>Loops over lanes\<close>

text \<open>
  \<^verbatim>\<open>for row in zip(*its): body\<close> where the body may assign items: every iterable is
  checked when \<^verbatim>\<open>zip\<close> is built, the loop runs as long as the shortest iterable has
  elements (item assignment does not change a length), and each turn reads its elements
  from the store as it is then.
\<close>

definition for_zip :: "'f ext \<Rightarrow> 'f val list \<Rightarrow> ('f val list \<Rightarrow> 'f heap \<Rightarrow> error + 'f heap) \<Rightarrow> 'f heap \<Rightarrow> error + 'f heap" where
  "for_zip ext its body h =
     bindE (mapE (py_len h) its) (\<lambda>ns.
       foldE (\<lambda>k h'. bindE (mapE (\<lambda>it. py_getitem ext h' it (int k)) its) (\<lambda>row. body row h'))
         [0..<(if ns = [] then 0 else Min (set ns))] h)"

text \<open>\<^verbatim>\<open>for j, val in enumerate(it): body\<close>\<close>

definition for_enumerate :: "'f ext \<Rightarrow> 'f val \<Rightarrow> (nat \<Rightarrow> 'f val \<Rightarrow> 'f heap \<Rightarrow> error + 'f heap) \<Rightarrow> 'f heap \<Rightarrow> error + 'f heap" where
  "for_enumerate ext it body h =
     bindE (py_len h it) (\<lambda>n.
       foldE (\<lambda>j h'. bindE (py_getitem ext h' it (int j)) (\<lambda>val. body j val h')) [0..<n] h)"

subsection \<open>UOps.STORE\<close>

text \<open>\<^verbatim>\<open>if g: _store(m, i, v)\<close>\<close>

definition gated_store :: "'f ext \<Rightarrow> 'f val \<Rightarrow> 'f val \<Rightarrow> 'f val \<Rightarrow> 'f val \<Rightarrow> 'f heap \<Rightarrow> error + 'f heap" where
  "gated_store ext m i v g h =
     bindE (py_truthy ext h g) (\<lambda>t. if t then store_item ext h m i v else Inr h)"

text \<open>
  \<^verbatim>\<open>assert ox >= 0 and ox < dtp[0].shape[1] and oy >= 0 and oy < dtp[0].shape[0]\<close>
\<close>

definition image_coords_ok :: "'f ext \<Rightarrow> int list \<Rightarrow> 'f val \<Rightarrow> 'f val \<Rightarrow> error + bool" where
  "image_coords_ok ext shp ox oy =
     bindE (py_cmp ext Ge ox (VInt 0)) (\<lambda>a. if \<not> a then Inr False else
     bindE (nthE shp 1) (\<lambda>w. bindE (py_cmp ext Lt ox (VInt w)) (\<lambda>b. if \<not> b then Inr False else
     bindE (py_cmp ext Ge oy (VInt 0)) (\<lambda>c. if \<not> c then Inr False else
     bindE (nthE shp 0) (\<lambda>hh. py_cmp ext Lt oy (VInt hh))))))"

text \<open>\<^verbatim>\<open>ox*4 + oy*dtp[0].shape[1]*4 + j\<close>\<close>

definition image_offset :: "'f ext \<Rightarrow> int list \<Rightarrow> 'f val \<Rightarrow> 'f val \<Rightarrow> nat \<Rightarrow> error + 'f val" where
  "image_offset ext shp ox oy j =
     bindE (py_binop ext Mul ox (VInt 4)) (\<lambda>a.
     bindE (nthE shp 1) (\<lambda>w. bindE (py_binop ext Mul oy (VInt w)) (\<lambda>b.
     bindE (py_binop ext Mul b (VInt 4)) (\<lambda>c.
     bindE (py_binop ext Add a c) (\<lambda>d. py_binop ext Add d (VInt (int j)))))))"

definition image_store_lane :: "'f ext \<Rightarrow> int list \<Rightarrow> nat \<Rightarrow> 'f val list \<Rightarrow> 'f heap \<Rightarrow> error + 'f heap" where
  "image_store_lane ext shp j row h =
     (case row of
        [m, ox, oy, v, g] \<Rightarrow>
          bindE (image_coords_ok ext shp ox oy) (\<lambda>ok. bindE (assertE ok) (\<lambda>u.
            bindE (py_truthy ext h g) (\<lambda>t.
              if t then bindE (image_offset ext shp ox oy j) (\<lambda>i. store_item ext h m i v)
              else Inr h)))
      | _ \<Rightarrow> Inl ValueError)"

definition vector_store_lane :: "'f ext \<Rightarrow> nat \<Rightarrow> 'f val list \<Rightarrow> 'f heap \<Rightarrow> error + 'f heap" where
  "vector_store_lane ext j row h =
     (case row of
        [m, off, v, g] \<Rightarrow>
          bindE (py_truthy ext h g) (\<lambda>t.
            if t then bindE (py_binop ext Add off (VInt (int j))) (\<lambda>i. store_item ext h m i v)
            else Inr h)
      | _ \<Rightarrow> Inl ValueError)"

definition scalar_store_lane :: "'f ext \<Rightarrow> 'f val list \<Rightarrow> 'f heap \<Rightarrow> error + 'f heap" where
  "scalar_store_lane ext row h =
     (case row of
        [m, off, v, g] \<Rightarrow> gated_store ext m off v g h
      | _ \<Rightarrow> Inl ValueError)"

text \<open>\<^verbatim>\<open>if len(inp) == 3: inp.append([True] * len(inp[0]))  # set the gate to True\<close>\<close>

definition default_gate :: "'f val list \<Rightarrow> 'f heap \<Rightarrow> error + 'f val list \<times> 'f heap" where
  "default_gate inp h =
     (if length inp = 3 then
        bindE (py_len h (inp ! 0)) (\<lambda>n.
          case alloc_list h (replicate n (VBool True)) of (g, h') \<Rightarrow> Inr (inp @ [g], h'))
      else Inr (inp, h))"

text \<open>
  The three forms of the STORE (image, several components, scalar), once the gate operand
  is there.
\<close>

definition store_lanes :: "'f ext \<Rightarrow> 'f val list \<Rightarrow> dtype list \<Rightarrow> 'f heap \<Rightarrow> error + 'f heap" where
  "store_lanes ext inp dtp h =
     bindE (nthE dtp 0) (\<lambda>d0.
       if is_image d0 then
         bindE (nthE dtp 2) (\<lambda>d2. bindE (assertE (count d2 = 4)) (\<lambda>u.
         bindE (nthE inp 2) (\<lambda>vals.
           for_enumerate ext vals (\<lambda>j val h1.
             bindE (nthE inp 0) (\<lambda>ms. bindE (nthE inp 1) (\<lambda>xy.
             bindE (py_getitem ext h1 xy 0) (\<lambda>oxs. bindE (py_getitem ext h1 xy 1) (\<lambda>oys.
             bindE (nthE inp 3) (\<lambda>gs.
               for_zip ext [ms, oxs, oys, val, gs] (image_store_lane ext (the (shape d0)) j) h1))))))
             h)))
       else
         bindE (nthE dtp 2) (\<lambda>d2.
           if count d2 > 1 then
             bindE (nthE inp 2) (\<lambda>vals.
               for_enumerate ext vals (\<lambda>j val h1.
                 bindE (nthE inp 0) (\<lambda>ms. bindE (nthE inp 1) (\<lambda>os. bindE (nthE inp 3) (\<lambda>gs.
                   for_zip ext [ms, os, val, gs] (vector_store_lane ext j) h1))))
                 h)
           else for_zip ext inp (scalar_store_lane ext) h))"

text \<open>The body of \<^verbatim>\<open>if uop is UOps.STORE\<close>, up to \<^verbatim>\<open>i += 1\<close>.\<close>

definition exec_store :: "'f ext \<Rightarrow> 'f val list \<Rightarrow> dtype list \<Rightarrow> 'f heap \<Rightarrow> error + 'f heap" where
  "exec_store ext inp0 dtp h0 =
     bindE (default_gate inp0 h0) (\<lambda>(inp, h). store_lanes ext inp dtp h)"

subsection \<open>The value-producing instructions\<close>

fun alloc_lists :: "'f heap \<Rightarrow> 'f val list list \<Rightarrow> 'f val list \<times> 'f heap" where
  "alloc_lists h [] = ([], h)"
| "alloc_lists h (xs # xss) =
     (case alloc_list h xs of (v, h1) \<Rightarrow>
        (case alloc_lists h1 xss of (vs, h2) \<Rightarrow> (v # vs, h2)))"

text \<open>A new list of new lists.\<close>

definition alloc_nested :: "'f heap \<Rightarrow> 'f val list list \<Rightarrow> 'f val \<times> 'f heap" where
  "alloc_nested h xss = (case alloc_lists h xss of (vs, h') \<Rightarrow> alloc_list h' vs)"

text \<open>
  \<^verbatim>\<open>m.cast(c)\<close> on a byte memoryview: the format must be known, and the length a
  multiple of the item size.
\<close>

definition mv_cast :: "'f heap \<Rightarrow> nat \<Rightarrow> char \<Rightarrow> error + 'f val" where
  "mv_cast h b c =
     bindE (bytes_at h b) (\<lambda>bs. bindE (fmt_info ValueError c) (\<lambda>(cl, sz).
       if length bs mod sz = 0 then Inr (VView b c) else Inl TypeError))"

text \<open>
  \<^verbatim>\<open>assert dtype.fmt is not None\<close>
  \<^verbatim>\<open>ul[i] = [pbufs.pop(0).cast(dtype.fmt)] * warp_size\<close>
\<close>

definition define_global :: "nat \<Rightarrow> dtype \<Rightarrow> 'f heap \<Rightarrow> nat list \<Rightarrow> error + 'f val \<times> 'f heap \<times> nat list" where
  "define_global ws dt h bufs =
     (case fmt dt of
        None \<Rightarrow> Inl AssertionError
      | Some c \<Rightarrow>
          (case bufs of
             [] \<Rightarrow> Inl IndexError
           | b # bufs' \<Rightarrow>
               bindE (mv_cast h b c) (\<lambda>m.
                 case alloc_list h (replicate ws m) of (v, h') \<Rightarrow> Inr (v, h', bufs'))))"

text \<open>
  \<^verbatim>\<open>assert dtype.fmt is not None\<close>
  \<^verbatim>\<open>lbuf = memoryview(bytearray(arg[1]*dtype.itemsize))\<close>
  \<^verbatim>\<open>ul[i] = [lbuf.cast(dtype.fmt)] * warp_size\<close>
  A tuple as \<^verbatim>\<open>arg[1]\<close> (which Python would repeat and turn into bytes) is not
  modelled.
\<close>

definition define_local :: "'f ext \<Rightarrow> nat \<Rightarrow> dtype \<Rightarrow> 'f lit \<Rightarrow> 'f heap \<Rightarrow> error + 'f val \<times> 'f heap" where
  "define_local ext ws dt arg h =
     (case fmt dt of
        None \<Rightarrow> Inl AssertionError
      | Some c \<Rightarrow>
          bindE (py_getitem ext h (VLit arg) 1) (\<lambda>a1.
            case a1 of
              VLit (LTuple t) \<Rightarrow> Inl Unmodelled
            | _ \<Rightarrow>
              bindE (py_binop ext Mul a1 (VInt (int (itemsize dt)))) (\<lambda>n.
                case n of
                  VLit l \<Rightarrow>
                    (case as_index l of
                       None \<Rightarrow> Inl TypeError
                     | Some k \<Rightarrow>
                         if k < 0 then Inl ValueError
                         else (case alloc_bytes h (nat k) of (b, h1) \<Rightarrow>
                                 bindE (mv_cast h1 b c) (\<lambda>m.
                                   Inr (alloc_list h1 (replicate ws m)))))
                | _ \<Rightarrow> Inl TypeError)))"

text \<open>\<^verbatim>\<open>ul[i] = [pvals.pop(0)] * warp_size\<close>\<close>

definition define_var :: "nat \<Rightarrow> 'f heap \<Rightarrow> int list \<Rightarrow> error + 'f val \<times> 'f heap \<times> int list" where
  "define_var ws h vals =
     (case vals of
        [] \<Rightarrow> Inl IndexError
      | x # vals' \<Rightarrow> (case alloc_list h (replicate ws (VInt x)) of (v, h') \<Rightarrow> Inr (v, h', vals')))"

text \<open>
  \<^verbatim>\<open>int(x)\<close> for the last character of a name. A string of one decimal digit and an
  integer are modelled; a longer string and a float are not.
\<close>

fun py_int :: "'f val \<Rightarrow> error + int" where
  "py_int (VLit (LInt n)) = Inr n"
| "py_int (VLit (LBool b)) = Inr (if b then 1 else 0)"
| "py_int (VLit (LStr s)) =
     (case s of
        [ch] \<Rightarrow> if ch \<in> set ''0123456789'' then Inr (int (of_char ch) - 48) else Inl ValueError
      | _ \<Rightarrow> Inl Unmodelled)"
| "py_int (VLit (LFloat x)) = Inl Unmodelled"
| "py_int _ = Inl TypeError"

text \<open>
  \<^verbatim>\<open>if arg[0][0] == 'g': ul[i] = [idxs[2-int(arg[0][-1])]] * warp_size\<close>
  \<^verbatim>\<open>elif arg[0][0] == 'l': ul[i] = [x[2-int(arg[0][-1])] for x in warp]\<close>
\<close>

definition special :: "'f ext \<Rightarrow> nat \<Rightarrow> int list list \<Rightarrow> int list \<Rightarrow> 'f lit \<Rightarrow> 'f heap \<Rightarrow> error + 'f val option \<times> 'f heap" where
  "special ext ws warp idxs arg h =
     bindE (py_getitem ext h (VLit arg) 0) (\<lambda>name. bindE (py_getitem ext h name 0) (\<lambda>c0.
       if c0 = VLit (LStr ''g'') then
         bindE (py_getitem ext h name (- 1)) (\<lambda>last. bindE (py_int last) (\<lambda>d.
           bindE (nthE idxs (2 - d)) (\<lambda>x.
             case alloc_list h (replicate ws (VInt x)) of (v, h') \<Rightarrow> Inr (Some v, h'))))
       else if c0 = VLit (LStr ''l'') then
         bindE (mapE (\<lambda>x. bindE (py_getitem ext h name (- 1)) (\<lambda>last. bindE (py_int last) (\<lambda>d.
                  bindE (nthE x (2 - d)) (\<lambda>y. Inr (VInt y))))) warp)
           (\<lambda>r. case alloc_list h r of (v, h') \<Rightarrow> Inr (Some v, h'))
       else Inr (None, h)))"

text \<open>
  \<^verbatim>\<open>ul[i] = [[inp[0][0][0]] * warp_size for _ in range(dtype.count)] if dtype.count > 1\<close>
  \<^verbatim>\<open>        else [inp[0][0]] * warp_size\<close>
\<close>

definition define_acc :: "'f ext \<Rightarrow> nat \<Rightarrow> dtype \<Rightarrow> 'f val list \<Rightarrow> 'f heap \<Rightarrow> error + 'f val \<times> 'f heap" where
  "define_acc ext ws dt inp h =
     (if count dt > 1 then
        bindE (nthE inp 0) (\<lambda>a. bindE (py_getitem ext h a 0) (\<lambda>b. bindE (py_getitem ext h b 0) (\<lambda>v.
          Inr (alloc_nested h (replicate (count dt) (replicate ws v))))))
      else
        bindE (nthE inp 0) (\<lambda>a. bindE (py_getitem ext h a 0) (\<lambda>v.
          Inr (alloc_list h (replicate ws v)))))"

text \<open>
  The integer branch of CAST:
  \<^verbatim>\<open>overflow_adjust = 2**(dtype.itemsize*8 - 1) if not dtypes.is_unsigned(dtype) else 0\<close>
  \<^verbatim>\<open>casted = [((x + overflow_adjust) % 2**(dtype.itemsize*8) - overflow_adjust) for x in casted]\<close>
\<close>

definition overflow_adjust :: "dtype \<Rightarrow> int" where
  "overflow_adjust dt = (if \<not> is_unsigned dt then 2 ^ (itemsize dt * 8 - 1) else 0)"

definition wrap_int :: "'f ext \<Rightarrow> dtype \<Rightarrow> 'f val \<Rightarrow> error + 'f val" where
  "wrap_int ext dt x =
     (if itemsize dt = 0 \<and> \<not> is_unsigned dt then Inl Unmodelled
      else bindE (py_binop ext Add x (VInt (overflow_adjust dt))) (\<lambda>a.
           bindE (py_binop ext Mod a (VInt (2 ^ (itemsize dt * 8)))) (\<lambda>b.
             py_binop ext Sub b (VInt (overflow_adjust dt)))))"

text \<open>
  \<^verbatim>\<open>assert dtp[0].fmt and dtype.fmt\<close>
  \<^verbatim>\<open>pack_format, unpack_format = str(warp_size) + dtp[0].fmt, str(warp_size) + dtype.fmt\<close>
  \<^verbatim>\<open>if uop is UOps.BITCAST: ul[i] = list(struct.unpack(unpack_format, struct.pack(pack_format, *inp[0])))\<close>
  \<^verbatim>\<open>else:\<close>
  \<^verbatim>\<open>  casted = [dtypes.as_const(x, dtype) for x in inp[0]]\<close>
  \<^verbatim>\<open>  if dtypes.is_int(dtype): ...\<close>
  \<^verbatim>\<open>  elif dtypes.is_float(dtype): casted = [truncate.get(dtype, lambda dt: dt)(x) for x in casted]\<close>
  \<^verbatim>\<open>  ul[i] = list(struct.unpack(unpack_format, struct.pack(unpack_format, *casted)))\<close>
\<close>

definition cast_lanes :: "'f ext \<Rightarrow> dtype \<Rightarrow> 'f val list \<Rightarrow> error + 'f val list" where
  "cast_lanes ext dt xs =
     bindE (mapE (\<lambda>x. as_const ext x dt) xs) (\<lambda>casted.
       if is_int dt then mapE (wrap_int ext dt) casted
       else if is_float dt then mapE (truncate_tab ext dt) casted
       else Inr casted)"

definition exec_cast :: "'f ext \<Rightarrow> nat \<Rightarrow> bool \<Rightarrow> dtype \<Rightarrow> 'f val list \<Rightarrow> dtype list \<Rightarrow> 'f heap \<Rightarrow> error + 'f val \<times> 'f heap" where
  "exec_cast ext ws bitcast dt inp dtp h =
     bindE (nthE dtp 0) (\<lambda>d0.
       case (fmt d0, fmt dt) of
         (Some pf, Some uf) \<Rightarrow>
           bindE (nthE inp 0) (\<lambda>a. bindE (py_iter ext h a) (\<lambda>xs.
             bindE (if bitcast then struct_pack ext h ws pf xs
                    else bindE (cast_lanes ext dt xs) (struct_pack ext h ws uf)) (\<lambda>bs.
               bindE (struct_unpack ext ws uf bs) (\<lambda>r. Inr (alloc_list h r)))))
       | _ \<Rightarrow> Inl AssertionError)"

text \<open>
  The image form of LOAD, one lane of one component:
  \<^verbatim>\<open>if ox < 0 or ox >= dtp[0].shape[1] or oy < 0 or oy >= dtp[0].shape[0]: ret.append(0)\<close>
  \<^verbatim>\<open>else: ret.append(_load(m, ox*4 + oy*dtp[0].shape[1]*4 + j))\<close>
\<close>

definition image_oob :: "'f ext \<Rightarrow> int list \<Rightarrow> 'f val \<Rightarrow> 'f val \<Rightarrow> error + bool" where
  "image_oob ext shp ox oy =
     bindE (py_cmp ext Lt ox (VInt 0)) (\<lambda>a. if a then Inr True else
     bindE (nthE shp 1) (\<lambda>w. bindE (py_cmp ext Ge ox (VInt w)) (\<lambda>b. if b then Inr True else
     bindE (py_cmp ext Lt oy (VInt 0)) (\<lambda>c. if c then Inr True else
     bindE (nthE shp 0) (\<lambda>hh. py_cmp ext Ge oy (VInt hh))))))"

definition image_load_lane :: "'f ext \<Rightarrow> 'f heap \<Rightarrow> int list \<Rightarrow> nat \<Rightarrow> 'f val \<times> 'f val \<times> 'f val \<Rightarrow> error + 'f val" where
  "image_load_lane ext h shp j = (\<lambda>(m, ox, oy).
     bindE (image_oob ext shp ox oy) (\<lambda>oob.
       if oob then Inr (VInt 0)
       else bindE (image_offset ext shp ox oy j) (load_item ext h m)))"

definition image_load :: "'f ext \<Rightarrow> 'f heap \<Rightarrow> int list \<Rightarrow> 'f val list \<Rightarrow> nat \<Rightarrow> error + 'f val list" where
  "image_load ext h shp inp j =
     bindE (nthE inp 0) (\<lambda>a. bindE (nthE inp 1) (\<lambda>xy.
     bindE (py_getitem ext h xy 0) (\<lambda>oxs. bindE (py_getitem ext h xy 1) (\<lambda>oys.
     bindE (py_iter ext h a) (\<lambda>ms. bindE (py_iter ext h oxs) (\<lambda>xs. bindE (py_iter ext h oys) (\<lambda>ys.
       mapE (image_load_lane ext h shp j) (zip ms (zip xs ys)))))))))"

text \<open>
  \<^verbatim>\<open>[inp[i][j] if dtp[i].count > 1 else inp[i] for i in range(len(inp))]\<close>
\<close>

definition component_operands :: "'f ext \<Rightarrow> 'f heap \<Rightarrow> 'f val list \<Rightarrow> dtype list \<Rightarrow> nat \<Rightarrow> error + 'f val list" where
  "component_operands ext h inp dtp j =
     mapE (\<lambda>k. bindE (nthE dtp (int k)) (\<lambda>d.
             if count d > 1 then py_getitem ext h (inp ! k) (int j) else Inr (inp ! k)))
       [0..<length inp]"

definition exec_load :: "'f ext \<Rightarrow> dtype \<Rightarrow> 'f val list \<Rightarrow> dtype list \<Rightarrow> 'f heap \<Rightarrow> error + 'f val \<times> 'f heap" where
  "exec_load ext dt inp dtp h =
     bindE (nthE dtp 0) (\<lambda>d0.
       if is_image d0 then
         bindE (assertE (count dt = 4)) (\<lambda>u.
           bindE (mapE (image_load ext h (the (shape d0)) inp) [0..<count dt]) (\<lambda>rets.
             Inr (alloc_nested h rets)))
       else if count dt > 1 then
         bindE (mapE (\<lambda>j. bindE (component_operands ext h inp dtp j) (\<lambda>inpj. load ext h inpj (int j)))
                  [0..<count dt]) (\<lambda>rets.
           Inr (alloc_nested h rets))
       else bindE (load ext h inp 0) (\<lambda>r. Inr (alloc_list h r)))"

text \<open>
  \<^verbatim>\<open>for j in range(len(inp[0])): inp[0][j] = inp[1][j]\<close>
  \<^verbatim>\<open>ul[i] = inp[0]\<close>
\<close>

definition exec_assign :: "'f ext \<Rightarrow> 'f val list \<Rightarrow> 'f heap \<Rightarrow> error + 'f val \<times> 'f heap" where
  "exec_assign ext inp h =
     bindE (nthE inp 0) (\<lambda>a. bindE (py_len h a) (\<lambda>n.
       bindE (foldE (\<lambda>j h'. bindE (nthE inp 1) (\<lambda>b. bindE (py_getitem ext h' b (int j)) (\<lambda>x.
                      py_setitem ext h' a (int j) x)))
                [0..<n] h)
         (\<lambda>h'. Inr (a, h'))))"

text \<open>
  \<^verbatim>\<open>assert len(arg) == 1\<close>
  \<^verbatim>\<open>ul[i] = inp[0][arg[0]]\<close>
\<close>

definition exec_gep :: "'f ext \<Rightarrow> 'f lit \<Rightarrow> 'f val list \<Rightarrow> 'f heap \<Rightarrow> error + 'f val \<times> 'f heap" where
  "exec_gep ext arg inp h =
     bindE (py_len h (VLit arg)) (\<lambda>n. bindE (assertE (n = 1)) (\<lambda>u.
       bindE (nthE inp 0) (\<lambda>a. bindE (py_getitem ext h (VLit arg) 0) (\<lambda>k.
         bindE (py_subscript ext h a k) (\<lambda>v. Inr (v, h))))))"

text \<open>\<^verbatim>\<open>ul[i] = tcl.wmma_model(arg[4])\<close> with \<^verbatim>\<open>tcl = TensorCoreLayout(warp_size, inp)\<close>\<close>

definition exec_wmma :: "'f ext \<Rightarrow> nat \<Rightarrow> 'f lit \<Rightarrow> 'f val list \<Rightarrow> 'f heap \<Rightarrow> error + 'f val \<times> 'f heap" where
  "exec_wmma ext ws arg inp h =
     bindE (py_getitem ext h (VLit arg) 4) (\<lambda>a4.
       bindE (wmma_model ext ws inp a4 (lists h)) (\<lambda>(v, ls). Inr (v, h\<lparr>lists := ls\<rparr>)))"

text \<open>\<^verbatim>\<open>zip(*inp)\<close> over the elements of the operands: one tuple per lane.\<close>

definition lanes :: "'a list list \<Rightarrow> 'a list list" where
  "lanes cols =
     (if cols = [] then []
      else map (\<lambda>k. map (\<lambda>col. col ! k) cols) [0..<Min (set (map length cols))])"

text \<open>
  \<^verbatim>\<open>assert all_same([len(x) for x in inp]), ...\<close>
  \<^verbatim>\<open>assert all_same([dtype] + dtp) or arg in {BinaryOps.CMPNE, BinaryOps.CMPLT, TernaryOps.WHERE}, ...\<close>
  \<^verbatim>\<open>ul[i] = [exec_alu(arg, dtype, p) for p in zip(*inp)]\<close>
\<close>

definition exec_alu_uop :: "'f ext \<Rightarrow> dtype \<Rightarrow> 'f lit \<Rightarrow> 'f val list \<Rightarrow> dtype list \<Rightarrow> 'f heap \<Rightarrow> error + 'f val \<times> 'f heap" where
  "exec_alu_uop ext dt arg inp dtp h =
     bindE (mapE (py_len h) inp) (\<lambda>ns. bindE (assertE (all_same ns)) (\<lambda>u.
     bindE (assertE (all_same (dt # dtp) \<or> arg \<in> {LOp CMPNE, LOp CMPLT, LOp WHERE})) (\<lambda>u.
     bindE (mapE (py_iter ext h) inp) (\<lambda>cols.
     bindE (mapE (exec_alu ext arg dt) (lanes cols)) (\<lambda>r. Inr (alloc_list h r))))))"

subsection \<open>One turn of the while loop\<close>

text \<open>
  The chain \<^verbatim>\<open>if uop is UOps.DEFINE_GLOBAL: ... elif ...\<close> for the instructions that
  only produce a value: the new \<^verbatim>\<open>ul[i]\<close> (if the instruction assigns one), the stores,
  and what is left of \<^verbatim>\<open>pbufs\<close> and \<^verbatim>\<open>pvals\<close>. The constructor call
  \<^verbatim>\<open>TensorCoreLayout(warp_size, inp)\<close>, made before every instruction, is taken to
  return without an effect.
\<close>

definition keep :: "nat list \<Rightarrow> int list \<Rightarrow> error + 'f val \<times> 'f heap \<Rightarrow> error + 'f val option \<times> 'f heap \<times> nat list \<times> int list" where
  "keep bufs vals r = bindE r (\<lambda>(v, h). Inr (Some v, h, bufs, vals))"

definition exec_uop :: "'f ext \<Rightarrow> nat \<Rightarrow> int list list \<Rightarrow> int list \<Rightarrow> uops \<Rightarrow> dtype \<Rightarrow> 'f lit \<Rightarrow> 'f val list \<Rightarrow> dtype list \<Rightarrow> 'f heap \<Rightarrow> nat list \<Rightarrow> int list \<Rightarrow> error + 'f val option \<times> 'f heap \<times> nat list \<times> int list" where
  "exec_uop ext ws warp idxs uop dt arg inp dtp h bufs vals =
     (case uop of
        DEFINE_GLOBAL \<Rightarrow>
          bindE (define_global ws dt h bufs) (\<lambda>(v, h', bufs'). Inr (Some v, h', bufs', vals))
      | DEFINE_LOCAL \<Rightarrow> keep bufs vals (define_local ext ws dt arg h)
      | DEFINE_VAR \<Rightarrow>
          bindE (define_var ws h vals) (\<lambda>(v, h', vals'). Inr (Some v, h', bufs, vals'))
      | SPECIAL \<Rightarrow> bindE (special ext ws warp idxs arg h) (\<lambda>(vo, h'). Inr (vo, h', bufs, vals))
      | CONST' \<Rightarrow> keep bufs vals (Inr (alloc_list h (replicate ws (VLit arg))))
      | DEFINE_ACC \<Rightarrow> keep bufs vals (define_acc ext ws dt inp h)
      | VECTORIZE \<Rightarrow> keep bufs vals (Inr (alloc_list h inp))
      | CAST \<Rightarrow> keep bufs vals (exec_cast ext ws False dt inp dtp h)
      | BITCAST \<Rightarrow> keep bufs vals (exec_cast ext ws True dt inp dtp h)
      | LOAD \<Rightarrow> keep bufs vals (exec_load ext dt inp dtp h)
      | ASSIGN \<Rightarrow> keep bufs vals (exec_assign ext inp h)
      | GEP \<Rightarrow> keep bufs vals (exec_gep ext arg inp h)
      | WMMA \<Rightarrow> keep bufs vals (exec_wmma ext ws arg inp h)
      | ALU \<Rightarrow> keep bufs vals (exec_alu_uop ext dt arg inp dtp h)
      | _ \<Rightarrow> Inr (None, h, bufs, vals))"

text \<open>
  The end of a turn:
  \<^verbatim>\<open>assert i in ul, (uop, dtype, idp, arg)\<close>
  \<^verbatim>\<open>i += 1\<close>
\<close>

definition finish :: "'f ctx \<Rightarrow> error + 'f ctx" where
  "finish c = (if ul c (pc c) \<noteq> None then Inr (c\<lparr>pc := pc c + 1\<rparr>) else Inl AssertionError)"

text \<open>\<^verbatim>\<open>for j in range(len(ul[i])): ul[i][j] += 1\<close>\<close>

definition bump_lanes :: "'f ext \<Rightarrow> 'f val \<Rightarrow> 'f heap \<Rightarrow> error + 'f heap" where
  "bump_lanes ext t h =
     bindE (py_len h t) (\<lambda>n.
       foldE (\<lambda>j h'. bindE (py_getitem ext h' t (int j)) (\<lambda>x.
                bindE (py_binop ext Add x (VInt 1)) (\<lambda>y. py_setitem ext h' t (int j) y)))
         [0..<n] h)"

text \<open>
  \<^verbatim>\<open>elif uop is UOps.RANGE:\<close>
  \<^verbatim>\<open>  if i not in ul: ul[i] = [inp[0][0]] * warp_size\<close>
  \<^verbatim>\<open>  else:\<close>
  \<^verbatim>\<open>    for j in range(len(ul[i])): ul[i][j] += 1\<close>
  \<^verbatim>\<open>    if ul[i][0] == inp[1][0]:\<close>
  \<^verbatim>\<open>      del ul[i]\<close>
  \<^verbatim>\<open>      i = loop_ends[i] + 1\<close>
  \<^verbatim>\<open>      continue\<close>
\<close>

definition exec_range :: "'f ext \<Rightarrow> nat \<Rightarrow> 'f val list \<Rightarrow> 'f ctx \<Rightarrow> error + 'f ctx" where
  "exec_range ext ws inp c =
     (case ul c (pc c) of
        None \<Rightarrow>
          bindE (nthE inp 0) (\<lambda>a. bindE (py_getitem ext (hp c) a 0) (\<lambda>v.
            case alloc_list (hp c) (replicate ws v) of
              (r, h') \<Rightarrow> finish (c\<lparr>ul := (ul c)(pc c \<mapsto> r), hp := h'\<rparr>)))
      | Some t \<Rightarrow>
          bindE (bump_lanes ext t (hp c)) (\<lambda>h'.
          bindE (py_getitem ext h' t 0) (\<lambda>x0.
          bindE (nthE inp 1) (\<lambda>b. bindE (py_getitem ext h' b 0) (\<lambda>bound.
            if py_eq_num ext x0 bound then
              (case loop_ends c (pc c) of
                 None \<Rightarrow> Inl KeyError
               | Some e \<Rightarrow> Inr (c\<lparr>ul := (ul c)(pc c := None), pc := e + 1, hp := h'\<rparr>))
            else finish (c\<lparr>hp := h'\<rparr>))))))"

text \<open>
  The chain of tests on \<^verbatim>\<open>uop\<close> in the body of the while loop, from
  \<^verbatim>\<open>if uop is UOps.STORE\<close> to \<^verbatim>\<open>i += 1\<close>, for the instruction, operands and operand
  types fetched at the top of the body. \<open>ws\<close> is \<^verbatim>\<open>warp_size\<close>.
\<close>

definition dispatch :: "'f ext \<Rightarrow> nat \<Rightarrow> int list list \<Rightarrow> int list \<Rightarrow> uops \<Rightarrow> dtype option \<Rightarrow> int list \<Rightarrow> 'f lit \<Rightarrow> 'f val list \<Rightarrow> dtype list \<Rightarrow> 'f ctx \<Rightarrow> error + 'f ctx" where
  "dispatch ext ws warp idxs uop dtype idp arg inp dtp c =
     (if uop = STORE then
        bindE (exec_store ext inp dtp (hp c)) (\<lambda>h. Inr (c\<lparr>pc := pc c + 1, hp := h\<rparr>))
      else if uop = ENDRANGE then
        bindE (nthE idp 0) (\<lambda>v. Inr (c\<lparr>pc := v, loop_ends := (loop_ends c)(v \<mapsto> pc c)\<rparr>))
      else if uop \<in> {BARRIER, IF, ENDIF} then Inr (c\<lparr>pc := pc c + 1\<rparr>)
      else
        (case dtype of
           None \<Rightarrow> Inl AssertionError
         | Some dt \<Rightarrow>
             if uop = RANGE then exec_range ext ws inp (c\<lparr>dl := (dl c)(pc c \<mapsto> dt)\<rparr>)
             else
               bindE (exec_uop ext ws warp idxs uop dt arg inp dtp (hp c) (pbufs c) (pvals c))
                 (\<lambda>(vo, h, bufs, vals).
                    finish (c\<lparr>ul := (case vo of None \<Rightarrow> ul c | Some v \<Rightarrow> (ul c)(pc c \<mapsto> v)),
                              dl := (dl c)(pc c \<mapsto> dt),
                              pbufs := bufs, pvals := vals, hp := h\<rparr>))))"

text \<open>
  The body of \<^verbatim>\<open>while i < len(self.uops)\<close>:
  \<^verbatim>\<open>uop, dtype, idp, arg = self.uops[i]\<close>
  \<^verbatim>\<open>if uop is UOps.DEFINE_ACC: idp = [idp[0]]\<close>
  \<^verbatim>\<open>inp = [ul[v] for v in idp if self.uops[v][0] not in void_ops]\<close>
  \<^verbatim>\<open>dtp = [dl[v] for v in idp if self.uops[v][0] not in void_ops]\<close>
  and then the chain of tests on \<^verbatim>\<open>uop\<close>.
\<close>

definition step :: "'f ext \<Rightarrow> nat \<Rightarrow> int list list \<Rightarrow> int list \<Rightarrow> 'f uop list \<Rightarrow> 'f ctx \<Rightarrow> error + 'f ctx" where
  "step ext ws warp idxs prog c =
     bindE (nthE prog (pc c)) (\<lambda>(uop, dtype, idp0, arg).
     bindE (if uop = DEFINE_ACC then bindE (nthE idp0 0) (\<lambda>v. Inr [v]) else Inr idp0) (\<lambda>idp.
     bindE (operands prog (ul c) idp) (\<lambda>inp.
     bindE (operands prog (dl c) idp) (\<lambda>dtp.
       dispatch ext ws warp idxs uop dtype idp arg inp dtp c))))"




subsection \<open>The while loop and the loop over the global coordinates\<close>


text \<open>
  The fresh variables of one coordinate:
  \<^verbatim>\<open>ul = {}; dl = {}; pbufs = list(bufs); pvals = list(vals); i = 0; loop_ends = {}\<close>
\<close>

definition init_ctx :: "nat list \<Rightarrow> int list \<Rightarrow> 'f heap \<Rightarrow> 'f ctx" where
  "init_ctx bufs vals h =
     \<lparr>ul = Map.empty, dl = Map.empty, pbufs = bufs, pvals = vals, pc = 0,
      loop_ends = Map.empty, hp = h\<rparr>"





subsection \<open>Concrete types and a concrete set of collaborators\<close>

text \<open>
  Some of tinygrad's scalar types, as \<^verbatim>\<open>tinygrad.dtype\<close> declares them (name, item size,
  struct format, one component, no image shape).
\<close>

definition dtypes_int8 :: dtype where
  "dtypes_int8 = \<lparr>dname = ''char'', kind = KSigned, itemsize = 1, fmt = Some CHR ''b'', count = 1, shape = None\<rparr>"

definition dtypes_uint8 :: dtype where
  "dtypes_uint8 = \<lparr>dname = ''unsigned char'', kind = KUnsigned, itemsize = 1, fmt = Some CHR ''B'', count = 1, shape = None\<rparr>"

definition dtypes_int32 :: dtype where
  "dtypes_int32 = \<lparr>dname = ''int'', kind = KSigned, itemsize = 4, fmt = Some CHR ''i'', count = 1, shape = None\<rparr>"

definition dtypes_bool :: dtype where
  "dtypes_bool = \<lparr>dname = ''bool'', kind = KBool, itemsize = 1, fmt = Some CHR ''?'', count = 1, shape = None\<rparr>"

text \<open>
  An integer type whose struct format agrees with its item size and signedness, and the
  least and greatest value of such a type.
\<close>

definition int_fmt_ok :: "dtype \<Rightarrow> bool" where
  "int_fmt_ok dt =
     (case fmt dt of
        None \<Rightarrow> False
      | Some c \<Rightarrow> map_of fmt_table c = Some (if is_unsigned dt then FUnsigned else FSigned, itemsize dt))"

definition int_lo :: "dtype \<Rightarrow> int" where
  "int_lo dt = (if is_unsigned dt then 0 else - (2 ^ (itemsize dt * 8 - 1)))"

definition int_hi :: "dtype \<Rightarrow> int" where
  "int_hi dt = (if is_unsigned dt then 2 ^ (itemsize dt * 8) - 1 else 2 ^ (itemsize dt * 8 - 1) - 1)"

text \<open>
  Collaborators on integers only, to run the interpreter on concrete programs: the
  arithmetic primitive knows \<^verbatim>\<open>BinaryOps.ADD\<close> and \<^verbatim>\<open>BinaryOps.CMPLT\<close> on two
  integers, \<^verbatim>\<open>as_const\<close> is \<^verbatim>\<open>int(x)\<close> on an integer, and there is a single float,
  which every float operation rejects.
\<close>

definition ints_alu :: "unit lit \<Rightarrow> dtype \<Rightarrow> unit val list \<Rightarrow> error + unit val" where
  "ints_alu arg dt p =
     (case p of
        [VLit a, VLit b] \<Rightarrow>
          (case (as_index a, as_index b) of
             (Some x, Some y) \<Rightarrow>
               if arg = LOp ADD then Inr (VInt (x + y))
               else if arg = LOp CMPLT then Inr (VBool (x < y))
               else Inl TypeError
           | _ \<Rightarrow> Inl TypeError)
      | _ \<Rightarrow> Inl TypeError)"

definition ints_as_const :: "unit val \<Rightarrow> dtype \<Rightarrow> error + unit val" where
  "ints_as_const v dt =
     (case v of
        VLit l \<Rightarrow> (case as_index l of Some n \<Rightarrow> Inr (VInt n) | None \<Rightarrow> Inl TypeError)
      | _ \<Rightarrow> Inl TypeError)"

definition ints_ext :: "unit ext" where
  "ints_ext =
     \<lparr>exec_alu = ints_alu,
      wmma_model = (\<lambda>ws inp a ls. Inl TypeError),
      as_const = ints_as_const,
      truncate_tab = (\<lambda>dt v. Inr v),
      float_binop = (\<lambda>op a b. Inl TypeError),
      float_cmp = (\<lambda>op a b. False),
      float_truthy = (\<lambda>x. False),
      float_pack = (\<lambda>c l. Inl StructError),
      float_unpack = (\<lambda>c bs. ())\<rparr>"

text \<open>The value the integer branch of CAST computes from an integer, and the values a
  struct integer format can hold.\<close>

definition wrapped :: "dtype \<Rightarrow> int \<Rightarrow> int" where
  "wrapped dt n = (n + overflow_adjust dt) mod 2 ^ (itemsize dt * 8) - overflow_adjust dt"

definition fits :: "fmt_class \<Rightarrow> nat \<Rightarrow> int \<Rightarrow> bool" where
  "fits cl sz r =
     (cl = FSigned \<and> - (2 ^ (8 * sz - 1)) \<le> r \<and> r < 2 ^ (8 * sz - 1)
      \<or> cl = FUnsigned \<and> 0 \<le> r \<and> r < 2 ^ (8 * sz))"


text \<open>All operand lane-vectors have equal length.\<close>

definition same_length :: "'a list list \<Rightarrow> bool" where
  "same_length cols = (\<forall>a \<in> set cols. \<forall>b \<in> set cols. length a = length b)"

text \<open>
  One lane of one component of an image load, in the words of the specification: zero
  outside the image, otherwise the bounds-checked read at the texel offset.
\<close>

definition texel :: "'f ext \<Rightarrow> 'f heap \<Rightarrow> int \<Rightarrow> int \<Rightarrow> nat \<Rightarrow> 'f val \<times> int \<times> int \<Rightarrow> error + 'f val" where
  "texel ext h height width j = (\<lambda>(m, x, y).
     if x < 0 \<or> width \<le> x \<or> y < 0 \<or> height \<le> y then Inr (VInt 0)
     else load_item ext h m (VInt (x * 4 + y * width * 4 + int j)))"

text \<open>
  A 2 by 2 image of 8-bit texels (16 bytes, byte \<open>k\<close> holding \<open>100 + k\<close>) and the stores
  of a two-lane image load at the coordinates (1, 1) and (5, 0).
\<close>

definition picture_heap :: "unit heap" where
  "picture_heap =
     \<lparr>lists = [[VView 0 CHR ''b'', VView 0 CHR ''b''], [VList 2, VList 3],
               [VInt 1, VInt 5], [VInt 1, VInt 0]],
      mem = [[100, 101, 102, 103, 104, 105, 106, 107, 108, 109, 110, 111, 112, 113, 114, 115]]\<rparr>"

definition image_dtype :: dtype where
  "image_dtype = \<lparr>dname = ''imageb'', kind = KSigned, itemsize = 1, fmt = Some CHR ''b'', count = 1,
                   shape = Some [2, 2, 4]\<rparr>"










section \<open>Properties\<close>

subsection \<open>Error values and the stores\<close>

lemma bindE_eq_Inr: "bindE m f = Inr y \<longleftrightarrow> (\<exists>x. m = Inr x \<and> f x = Inr y)"
  by (cases m) auto

lemma bindE_eq_Inl: "bindE m f = Inl e \<longleftrightarrow> m = Inl e \<or> (\<exists>x. m = Inr x \<and> f x = Inl e)"
  by (cases m) auto

lemma mapE_Inr_map: "mapE (\<lambda>x. Inr (g x)) xs = Inr (map g xs)"
  by (induction xs) auto

lemma mapE_eq_Inr: "mapE f xs = Inr ys \<longleftrightarrow> list_all2 (\<lambda>x y. f x = Inr y) xs ys"
proof (induction xs arbitrary: ys)
  case Nil
  show ?case by auto
next
  case (Cons x xs)
  show ?case
    by (cases ys) (auto simp: bindE_eq_Inr Cons.IH)
qed

lemma mapE_map: "mapE f (map g xs) = mapE (\<lambda>x. f (g x)) xs"
  by (induction xs) auto

lemma mapE_cong_set: "(\<And>x. x \<in> set xs \<Longrightarrow> f x = g x) \<Longrightarrow> mapE f xs = mapE g xs"
  by (induction xs) auto

lemma length_le_bytes: "length (le_bytes n x) = n"
  by (induction n arbitrary: x) auto

lemma le_int_le_bytes: "le_int (le_bytes n x) = x mod 256 ^ n"
proof (induction n arbitrary: x)
  case 0
  show ?case by simp
next
  case (Suc n)
  have "uint (word_of_int x :: byte) = x mod 256"
    by (simp add: uint_word_of_int)
  then show ?case
    using Suc.IH [of "x div 256"] zmod_zmult2_eq [of "256 ^ n" x 256]
    by simp
qed

lemma item_bytes_concat:
  "\<forall>bs \<in> set bss. length bs = sz \<Longrightarrow> j < length bss \<Longrightarrow> item_bytes sz j (concat bss) = bss ! j"
proof (induction bss arbitrary: j)
  case Nil
  then show ?case by simp
next
  case (Cons b bss)
  show ?case
  proof (cases j)
    case 0
    with Cons.prems show ?thesis by (simp add: item_bytes_def)
  next
    case (Suc k)
    with Cons.prems have "item_bytes sz k (concat bss) = bss ! k"
      by (intro Cons.IH) auto
    with Cons.prems Suc show ?thesis
      by (simp add: item_bytes_def)
  qed
qed

lemma length_concat_same:
  "\<forall>bs \<in> set bss. length bs = sz \<Longrightarrow> length (concat bss) = length bss * sz"
  by (induction bss) auto

subsection \<open>Integers through struct\<close>

lemma fmt_table_size: "map_of fmt_table c = Some (cl, sz) \<Longrightarrow> sz \<in> {1, 2, 4, 8}"
  by (auto simp: fmt_table_def split: if_splits)

lemma fmt_info_table: "map_of fmt_table c = Some ci \<Longrightarrow> fmt_info bad c = Inr ci"
  by (simp add: fmt_info_def)

lemma py_binop_ints:
  "py_binop ext Add (VInt x) (VInt y) = Inr (VInt (x + y))"
  "py_binop ext Sub (VInt x) (VInt y) = Inr (VInt (x - y))"
  "py_binop ext Mul (VInt x) (VInt y) = Inr (VInt (x * y))"
  "y \<noteq> 0 \<Longrightarrow> py_binop ext Mod (VInt x) (VInt y) = Inr (VInt (x mod y))"
  by (simp_all add: lit_binop_def)

lemma py_cmp_ints:
  "py_cmp ext Lt (VInt x) (VInt y) = Inr (x < y)"
  "py_cmp ext Ge (VInt x) (VInt y) = Inr (x \<ge> y)"
  by (simp_all add: lit_cmp_def)

lemma wrap_int_VInt:
  "0 < itemsize dt \<Longrightarrow> wrap_int ext dt (VInt n) = Inr (VInt (wrapped dt n))"
  by (simp add: wrap_int_def wrapped_def lit_binop_def)

lemma two_power_half: "0 < b \<Longrightarrow> (2::int) ^ b = 2 * 2 ^ (b - 1)"
  by (cases b) auto

lemma wrapped_range:
  assumes "0 < itemsize dt"
  shows "int_lo dt \<le> wrapped dt n" and "wrapped dt n \<le> int_hi dt"
proof -
  let ?M = "(2::int) ^ (itemsize dt * 8)"
  have M: "?M = 2 * 2 ^ (itemsize dt * 8 - 1)"
    using assms by (intro two_power_half) simp
  have lo: "0 \<le> (n + overflow_adjust dt) mod ?M" by simp
  have hi: "(n + overflow_adjust dt) mod ?M < ?M" by simp
  show "int_lo dt \<le> wrapped dt n"
    using lo by (simp add: wrapped_def int_lo_def overflow_adjust_def)
  show "wrapped dt n \<le> int_hi dt"
    using hi M by (auto simp: wrapped_def int_hi_def overflow_adjust_def)
qed

lemma wrapped_cong: "wrapped dt n mod 2 ^ (itemsize dt * 8) = n mod 2 ^ (itemsize dt * 8)"
  by (simp add: wrapped_def mod_diff_left_eq)

lemma pow256: "(256::int) ^ n = 2 ^ (8 * n)"
  by (simp add: power_mult)

lemma pack_item_int:
  assumes "map_of fmt_table c = Some (cl, sz)"
    and "cl = FSigned \<and> - (2 ^ (8 * sz - 1)) \<le> r \<and> r < 2 ^ (8 * sz - 1)
         \<or> cl = FUnsigned \<and> 0 \<le> r \<and> r < 2 ^ (8 * sz)"
  shows "pack_item ext h bad ety erg c (VInt r) = Inr (le_bytes sz r)"
  using assms by (auto simp: pack_item_def pack_int_def fmt_info_table)

lemma unpack_item_int:
  assumes "map_of fmt_table c = Some (cl, sz)"
    and "cl = FSigned \<and> - (2 ^ (8 * sz - 1)) \<le> r \<and> r < 2 ^ (8 * sz - 1)
         \<or> cl = FUnsigned \<and> 0 \<le> r \<and> r < 2 ^ (8 * sz)"
  shows "unpack_item ext bad c (le_bytes sz r) = Inr (VInt r)"
proof -
  have sz: "0 < sz" using fmt_table_size [OF assms(1)] by auto
  have M: "(2::int) ^ (8 * sz) = 2 * 2 ^ (8 * sz - 1)"
    using sz by (intro two_power_half) simp
  from assms(2) show ?thesis
  proof
    assume s: "cl = FSigned \<and> - (2 ^ (8 * sz - 1)) \<le> r \<and> r < 2 ^ (8 * sz - 1)"
    show ?thesis
    proof (cases "0 \<le> r")
      case True
      with s M have "r mod 2 ^ (8 * sz) = r" by simp
      with s True show ?thesis
        by (simp add: unpack_item_def fmt_info_table [OF assms(1)] le_int_le_bytes pow256)
    next
      case False
      with s M have "(r + 2 ^ (8 * sz)) mod 2 ^ (8 * sz) = r + 2 ^ (8 * sz)"
        by (intro mod_pos_pos_trivial) auto
      then have "r mod 2 ^ (8 * sz) = r + 2 ^ (8 * sz)" by simp
      with s False M show ?thesis
        by (simp add: unpack_item_def fmt_info_table [OF assms(1)] le_int_le_bytes pow256)
    qed
  next
    assume u: "cl = FUnsigned \<and> 0 \<le> r \<and> r < 2 ^ (8 * sz)"
    then have "r mod 2 ^ (8 * sz) = r" by simp
    with u show ?thesis
      by (simp add: unpack_item_def fmt_info_table [OF assms(1)] le_int_le_bytes pow256)
  qed
qed

lemma struct_pack_ints:
  assumes "map_of fmt_table c = Some (cl, sz)" and "\<forall>r \<in> set rs. fits cl sz r" and "length rs = n"
  shows "struct_pack ext h n c (map VInt rs) = Inr (concat (map (le_bytes sz) rs))"
proof -
  have "mapE (pack_item ext h StructError StructError StructError c) (map VInt rs)
        = mapE (\<lambda>r. Inr (le_bytes sz r)) rs"
    unfolding mapE_map
    by (rule mapE_cong_set) (use assms in \<open>auto simp: fits_def intro!: pack_item_int\<close>)
  then show ?thesis
    using assms by (simp add: struct_pack_def fmt_info_table mapE_Inr_map)
qed

lemma struct_unpack_ints:
  assumes "map_of fmt_table c = Some (cl, sz)" and "\<forall>r \<in> set rs. fits cl sz r" and "length rs = n"
  shows "struct_unpack ext n c (concat (map (le_bytes sz) rs)) = Inr (map VInt rs)"
proof -
  let ?bss = "map (le_bytes sz) rs"
  have len: "\<forall>bs \<in> set ?bss. length bs = sz" by (auto simp: length_le_bytes)
  have "mapE (\<lambda>j. unpack_item ext StructError c (item_bytes sz j (concat ?bss))) [0..<n]
        = mapE (\<lambda>j. Inr (VInt (rs ! j))) [0..<n]"
  proof (rule mapE_cong_set)
    fix j assume "j \<in> set [0..<n]"
    then have j: "j < length rs" using assms(3) by simp
    then have "item_bytes sz j (concat ?bss) = le_bytes sz (rs ! j)"
      using item_bytes_concat [OF len, of j] by simp
    moreover have "fits cl sz (rs ! j)" using assms(2) j by simp
    ultimately show "unpack_item ext StructError c (item_bytes sz j (concat ?bss)) = Inr (VInt (rs ! j))"
      using unpack_item_int [OF assms(1), of "rs ! j"] by (simp add: fits_def)
  qed
  also have "\<dots> = Inr (map (\<lambda>j. VInt (rs ! j)) [0..<n])" by (rule mapE_Inr_map)
  also have "map (\<lambda>j. VInt (rs ! j)) [0..<n] = map VInt rs"
    using assms(3) by (auto simp: list_eq_iff_nth_eq)
  finally show ?thesis
    using assms length_concat_same [OF len]
    by (simp add: struct_unpack_def fmt_info_table)
qed

lemma int_fmt_ok_fits:
  assumes "int_fmt_ok dt"
  shows "\<exists>c cl. fmt dt = Some c \<and> map_of fmt_table c = Some (cl, itemsize dt)
    \<and> 0 < itemsize dt \<and> (\<forall>n. fits cl (itemsize dt) (wrapped dt n))"
proof -
  from assms obtain c where c: "fmt dt = Some c"
    and t: "map_of fmt_table c = Some (if is_unsigned dt then FUnsigned else FSigned, itemsize dt)"
    by (auto simp: int_fmt_ok_def split: option.splits)
  have pos: "0 < itemsize dt" using fmt_table_size [OF t] by auto
  have "fits (if is_unsigned dt then FUnsigned else FSigned) (itemsize dt) (wrapped dt n)" for n
    using wrapped_range [OF pos, of n]
    by (auto simp: fits_def int_lo_def int_hi_def mult.commute)
  with c t pos show ?thesis by blast
qed

lemma cast_lanes_ints:
  assumes "is_int dt" "0 < itemsize dt" "mapE (\<lambda>x. as_const ext x dt) xs = Inr (map VInt ns)"
  shows "cast_lanes ext dt xs = Inr (map VInt (map (wrapped dt) ns))"
proof -
  have "mapE (wrap_int ext dt) (map VInt ns) = mapE (\<lambda>n. Inr (VInt (wrapped dt n))) ns"
    unfolding mapE_map using assms(2) by (intro mapE_cong_set) (simp add: wrap_int_VInt)
  then show ?thesis
    using assms by (simp add: cast_lanes_def mapE_Inr_map comp_def)
qed

subsection \<open>CAST to an integer type\<close>

text \<open>
  C3. A CAST to an integer type whose struct format matches its size, on lanes that
  \<^verbatim>\<open>dtypes.as_const\<close> turns into the integers \<open>ns\<close>: every lane of the result lies
  between the least and the greatest value of the type and is congruent to its input
  modulo \<open>2 ^ bits\<close>; for an 8-bit type the input 130 gives \<open>-126\<close> when the type is
  signed and 130 when it is unsigned.
\<close>

theorem cast_to_int_wraps:
  assumes "is_int dt" and "int_fmt_ok dt"
    and "nthE dtp 0 = Inr d0" and "fmt d0 \<noteq> None"
    and "nthE inp 0 = Inr src" and "py_iter ext h src = Inr xs" and "length xs = ws"
    and "mapE (\<lambda>x. as_const ext x dt) xs = Inr (map VInt ns)"
  shows "\<exists>rs. exec_cast ext ws False dt inp dtp h = Inr (alloc_list h (map VInt rs))
           \<and> length rs = length ns
           \<and> (\<forall>i < length ns.
                 int_lo dt \<le> rs ! i \<and> rs ! i \<le> int_hi dt
                 \<and> rs ! i mod 2 ^ (itemsize dt * 8) = ns ! i mod 2 ^ (itemsize dt * 8)
                 \<and> (itemsize dt = 1 \<and> ns ! i = 130 \<longrightarrow> rs ! i = (if is_unsigned dt then 130 else - 126)))"
proof -
  from int_fmt_ok_fits [OF assms(2)] obtain c cl where c: "fmt dt = Some c"
    and t: "map_of fmt_table c = Some (cl, itemsize dt)"
    and pos: "0 < itemsize dt" and fits: "\<And>n. fits cl (itemsize dt) (wrapped dt n)"
    by blast
  let ?rs = "map (wrapped dt) ns"
  have len: "length ns = ws"
    using assms(7,8) by (auto simp: mapE_eq_Inr dest: list_all2_lengthD)
  have cl: "cast_lanes ext dt xs = Inr (map VInt ?rs)"
    using assms(1) pos assms(8) by (rule cast_lanes_ints)
  have pk: "struct_pack ext h ws c (map VInt ?rs) = Inr (concat (map (le_bytes (itemsize dt)) ?rs))"
    using t fits len by (intro struct_pack_ints [where cl = cl]) auto
  have un: "struct_unpack ext ws c (concat (map (le_bytes (itemsize dt)) ?rs)) = Inr (map VInt ?rs)"
    using t fits len by (intro struct_unpack_ints [where cl = cl]) auto
  from assms(4) obtain pf where pf: "fmt d0 = Some pf" by auto
  have run: "exec_cast ext ws False dt inp dtp h = Inr (alloc_list h (map VInt ?rs))"
    using assms(3,5,6) pf c cl pk un by (simp add: exec_cast_def)
  have ex: "wrapped dt 130 = (if is_unsigned dt then 130 else - 126)" if "itemsize dt = 1"
    using that by (simp add: wrapped_def overflow_adjust_def)
  show ?thesis
  proof (intro exI [of _ ?rs] conjI allI impI)
    show "exec_cast ext ws False dt inp dtp h = Inr (alloc_list h (map VInt ?rs))" by (rule run)
    show "length ?rs = length ns" by simp
  next
    fix i assume i: "i < length ns"
    show "int_lo dt \<le> ?rs ! i" using i wrapped_range(1) [OF pos] by simp
    show "?rs ! i \<le> int_hi dt" using i wrapped_range(2) [OF pos] by simp
    show "?rs ! i mod 2 ^ (itemsize dt * 8) = ns ! i mod 2 ^ (itemsize dt * 8)"
      using i by (simp add: wrapped_cong)
    show "?rs ! i = (if is_unsigned dt then 130 else - 126)" if "itemsize dt = 1 \<and> ns ! i = 130"
      using that i ex by simp
  qed
qed

lemma cast_witness_hyps:
  "nthE [dtypes_int32] 0 = Inr dtypes_int32" "fmt dtypes_int32 \<noteq> None"
  "nthE [VList 0 :: unit val] 0 = Inr (VList 0)"
  "py_iter ints_ext \<lparr>lists = [[VInt 130]], mem = []\<rparr> (VList 0) = Inr [VInt 130]"
  "length [VInt 130 :: unit val] = 1"
  "mapE (\<lambda>x. as_const ints_ext x dt) [VInt 130] = Inr (map VInt [130])"
  "is_int dtypes_int8" "int_fmt_ok dtypes_int8" "is_int dtypes_uint8" "int_fmt_ok dtypes_uint8"
  by (simp_all add: nthE_def py_index_def dtypes_int32_def list_at_def ints_ext_def ints_as_const_def
      is_int_def int_fmt_ok_def dtypes_int8_def dtypes_uint8_def fmt_table_def is_unsigned_def)

theorem cast_to_int_wraps_witness:
  "(\<exists>rs. exec_cast ints_ext 1 False dtypes_int8 [VList 0] [dtypes_int32] \<lparr>lists = [[VInt 130]], mem = []\<rparr>
           = Inr (alloc_list \<lparr>lists = [[VInt 130]], mem = []\<rparr> (map VInt rs)) \<and> rs = [- 126])
   \<and> (\<exists>rs. exec_cast ints_ext 1 False dtypes_uint8 [VList 0] [dtypes_int32] \<lparr>lists = [[VInt 130]], mem = []\<rparr>
           = Inr (alloc_list \<lparr>lists = [[VInt 130]], mem = []\<rparr> (map VInt rs)) \<and> rs = [130])"
proof -
  have one: "rs = [rs ! 0]" if "length rs = Suc 0" for rs :: "int list"
    using that by (cases rs) auto
  have s: "itemsize dtypes_int8 = 1" "\<not> is_unsigned dtypes_int8"
    and u: "itemsize dtypes_uint8 = 1" "is_unsigned dtypes_uint8"
    by (simp_all add: dtypes_int8_def dtypes_uint8_def is_unsigned_def)
  from cast_to_int_wraps [OF cast_witness_hyps(7,8,1,2,3,4,5,6)] s
  obtain rs where "exec_cast ints_ext 1 False dtypes_int8 [VList 0] [dtypes_int32] \<lparr>lists = [[VInt 130]], mem = []\<rparr>
           = Inr (alloc_list \<lparr>lists = [[VInt 130]], mem = []\<rparr> (map VInt rs))"
    and "length rs = Suc 0" and "rs ! 0 = - 126"
    by auto
  moreover
  from cast_to_int_wraps [OF cast_witness_hyps(9,10,1,2,3,4,5,6)] u
  obtain rs' where "exec_cast ints_ext 1 False dtypes_uint8 [VList 0] [dtypes_int32] \<lparr>lists = [[VInt 130]], mem = []\<rparr>
           = Inr (alloc_list \<lparr>lists = [[VInt 130]], mem = []\<rparr> (map VInt rs'))"
    and "length rs' = Suc 0" and "rs' ! 0 = 130"
    by auto
  ultimately show ?thesis
    using one [of rs] one [of rs'] by auto
qed

subsection \<open>Tracing does not influence a run\<close>




subsection \<open>Determinism\<close>



subsection \<open>Elementwise arithmetic\<close>

lemma all_same_iff: "all_same xs \<longleftrightarrow> (\<forall>a \<in> set xs. \<forall>b \<in> set xs. a = b)"
proof (cases xs)
  case Nil
  then show ?thesis by simp
next
  case (Cons x ys)
  have "list_all (\<lambda>y. y = x) ys \<longleftrightarrow> (\<forall>a \<in> set (x # ys). \<forall>b \<in> set (x # ys). a = b)"
    by (simp add: list_all_iff) metis
  with Cons show ?thesis by simp
qed

lemma all_same_Cons: "all_same (x # xs) \<longleftrightarrow> (\<forall>y \<in> set xs. y = x)"
  by (simp add: list_all_iff)

lemma mapE_length: "mapE f xs = Inr ys \<Longrightarrow> length ys = length xs"
  by (auto simp: mapE_eq_Inr dest: list_all2_lengthD)

lemma py_iter_len: "py_iter ext h v = Inr xs \<Longrightarrow> py_len h v = Inr (length xs)"
proof (induction ext h v rule: py_iter.induct)
  case (2 ext h b c)
  then show ?case
    by (auto simp: bindE_eq_Inr mv_len_def dest: mapE_length)
qed (auto simp: bindE_eq_Inr)

lemma mapE_py_len:
  "mapE (py_iter ext h) inp = Inr cols \<Longrightarrow> mapE (py_len h) inp = Inr (map length cols)"
  by (auto simp: mapE_eq_Inr list_all2_conv_all_nth dest: py_iter_len)

lemma all_same_lengths: "all_same (map length cols) \<longleftrightarrow> same_length cols"
  unfolding all_same_iff same_length_def by simp

lemma lanes_same_length:
  assumes "same_length cols" and "col \<in> set cols"
  shows "lanes cols = map (\<lambda>k. map (\<lambda>c. c ! k) cols) [0..<length col]"
proof -
  have "length ` set cols = {length col}"
  proof
    show "length ` set cols \<subseteq> {length col}"
      using assms unfolding same_length_def by blast
    show "{length col} \<subseteq> length ` set cols"
      using assms(2) by blast
  qed
  then have "Min (set (map length cols)) = length col" by simp
  moreover have "cols \<noteq> []" using assms(2) by auto
  ultimately show ?thesis by (simp add: lanes_def)
qed

text \<open>
  C7. An ALU instruction whose operands are iterable, with the elements \<open>cols\<close>: if the
  operands differ in length the instruction fails its assertion; if they agree in length
  but some operand type differs from the result type and the operation is none of
  \<^verbatim>\<open>CMPNE\<close>, \<^verbatim>\<open>CMPLT\<close>, \<^verbatim>\<open>WHERE\<close>, it fails its assertion; otherwise the result is
  the list of \<^verbatim>\<open>exec_alu\<close> applied to each lane's tuple of operand values (lane \<open>k\<close>
  of every operand, in operand order), and an exception of \<^verbatim>\<open>exec_alu\<close> is the
  instruction's.
\<close>

theorem alu_precondition:
  assumes "mapE (py_iter ext h) inp = Inr cols"
  shows "(\<not> same_length cols \<longrightarrow> exec_alu_uop ext dt arg inp dtp h = Inl AssertionError)
       \<and> (same_length cols \<and> \<not> ((\<forall>d \<in> set dtp. d = dt) \<or> arg \<in> {LOp CMPNE, LOp CMPLT, LOp WHERE})
            \<longrightarrow> exec_alu_uop ext dt arg inp dtp h = Inl AssertionError)
       \<and> (same_length cols \<and> ((\<forall>d \<in> set dtp. d = dt) \<or> arg \<in> {LOp CMPNE, LOp CMPLT, LOp WHERE})
            \<longrightarrow> exec_alu_uop ext dt arg inp dtp h
                  = bindE (mapE (exec_alu ext arg dt) (lanes cols)) (\<lambda>r. Inr (alloc_list h r))
                \<and> (\<forall>col \<in> set cols. lanes cols = map (\<lambda>k. map (\<lambda>c. c ! k) cols) [0..<length col]))"
proof -
  have lens: "mapE (py_len h) inp = Inr (map length cols)"
    using assms by (rule mapE_py_len)
  have ty: "all_same (dt # dtp) \<longleftrightarrow> (\<forall>d \<in> set dtp. d = dt)"
    by (rule all_same_Cons)
  have run: "exec_alu_uop ext dt arg inp dtp h =
      (if \<not> same_length cols then Inl AssertionError
       else if \<not> ((\<forall>d \<in> set dtp. d = dt) \<or> arg \<in> {LOp CMPNE, LOp CMPLT, LOp WHERE}) then Inl AssertionError
       else bindE (mapE (exec_alu ext arg dt) (lanes cols)) (\<lambda>r. Inr (alloc_list h r)))"
    by (simp add: exec_alu_uop_def lens assms assertE_def all_same_lengths ty del: all_same.simps)
  have tuples: "\<forall>col \<in> set cols. lanes cols = map (\<lambda>k. map (\<lambda>c. c ! k) cols) [0..<length col]"
    if "same_length cols"
    using that lanes_same_length [of cols] by blast
  show ?thesis
  proof (intro conjI impI)
    assume "\<not> same_length cols"
    then show "exec_alu_uop ext dt arg inp dtp h = Inl AssertionError" by (simp add: run)
  next
    assume "same_length cols \<and> \<not> ((\<forall>d \<in> set dtp. d = dt) \<or> arg \<in> {LOp CMPNE, LOp CMPLT, LOp WHERE})"
    then show "exec_alu_uop ext dt arg inp dtp h = Inl AssertionError"
      unfolding run by (simp only: if_True if_False not_not simp_thms)
  next
    assume a: "same_length cols \<and> ((\<forall>d \<in> set dtp. d = dt) \<or> arg \<in> {LOp CMPNE, LOp CMPLT, LOp WHERE})"
    then show "exec_alu_uop ext dt arg inp dtp h
                  = bindE (mapE (exec_alu ext arg dt) (lanes cols)) (\<lambda>r. Inr (alloc_list h r))"
      unfolding run by (simp only: if_True if_False not_not simp_thms)
    from a show "\<forall>col \<in> set cols. lanes cols = map (\<lambda>k. map (\<lambda>c. c ! k) cols) [0..<length col]"
      using tuples by blast
  qed
qed

theorem alu_precondition_witness:
  "exec_alu_uop ints_ext dtypes_int32 (LOp ADD) [VList 0, VList 1] [dtypes_int32, dtypes_int32]
     \<lparr>lists = [[VInt 1, VInt 2], [VInt 10, VInt 20]], mem = []\<rparr>
   = Inr (alloc_list \<lparr>lists = [[VInt 1, VInt 2], [VInt 10, VInt 20]], mem = []\<rparr> [VInt 11, VInt 22])
   \<and> exec_alu_uop ints_ext dtypes_int32 (LOp ADD) [VList 0, VList 1] [dtypes_int32, dtypes_int32]
     \<lparr>lists = [[VInt 1, VInt 2], [VInt 10]], mem = []\<rparr> = Inl AssertionError
   \<and> exec_alu_uop ints_ext dtypes_int32 (LOp ADD) [VList 0, VList 1] [dtypes_int32, dtypes_bool]
     \<lparr>lists = [[VInt 1, VInt 2], [VInt 10, VInt 20]], mem = []\<rparr> = Inl AssertionError"
proof -
  let ?h = "\<lparr>lists = [[VInt 1, VInt 2], [VInt 10, VInt 20]], mem = []\<rparr> :: unit heap"
  let ?h' = "\<lparr>lists = [[VInt 1, VInt 2], [VInt 10]], mem = []\<rparr> :: unit heap"
  let ?cols = "[[VInt 1, VInt 2], [VInt 10, VInt 20]] :: unit val list list"
  let ?cols' = "[[VInt 1, VInt 2], [VInt 10]] :: unit val list list"
  have it: "mapE (py_iter ints_ext ?h) [VList 0, VList 1] = Inr ?cols"
    and it': "mapE (py_iter ints_ext ?h') [VList 0, VList 1] = Inr ?cols'"
    by (simp_all add: list_at_def)
  have same: "same_length ?cols" and diff: "\<not> same_length ?cols'"
    by (simp_all add: same_length_def)
  have ty: "\<forall>d \<in> set [dtypes_int32, dtypes_int32]. d = dtypes_int32"
    and ty': "\<not> ((\<forall>d \<in> set [dtypes_int32, dtypes_bool]. d = dtypes_int32)
               \<or> (LOp ADD :: unit lit) \<in> {LOp CMPNE, LOp CMPLT, LOp WHERE})"
    by (simp_all add: dtypes_int32_def dtypes_bool_def ADD_def CMPNE_def CMPLT_def WHERE_def)
  have ln: "lanes ?cols = [[VInt 1, VInt 10], [VInt 2, VInt 20]]"
    using alu_precondition [OF it, of dtypes_int32 "LOp ADD" "[dtypes_int32, dtypes_int32]"] same ty
    by (simp add: upt_rec)
  have "exec_alu_uop ints_ext dtypes_int32 (LOp ADD) [VList 0, VList 1] [dtypes_int32, dtypes_int32] ?h
        = Inr (alloc_list ?h [VInt 11, VInt 22])"
    using alu_precondition [OF it, of dtypes_int32 "LOp ADD" "[dtypes_int32, dtypes_int32]"] same ty
    by (simp add: ln ints_ext_def ints_alu_def)
  moreover have "exec_alu_uop ints_ext dtypes_int32 (LOp ADD) [VList 0, VList 1] [dtypes_int32, dtypes_int32] ?h'
        = Inl AssertionError"
    using alu_precondition [OF it', of dtypes_int32 "LOp ADD" "[dtypes_int32, dtypes_int32]"] diff
    by blast
  moreover have "exec_alu_uop ints_ext dtypes_int32 (LOp ADD) [VList 0, VList 1] [dtypes_int32, dtypes_bool] ?h
        = Inl AssertionError"
    using alu_precondition [OF it, of dtypes_int32 "LOp ADD" "[dtypes_int32, dtypes_bool]"] same ty'
    by blast
  ultimately show ?thesis by blast
qed

subsection \<open>Local buffers\<close>

lemma mv_cast_fresh:
  assumes "map_of fmt_table f = Some (cl, sz)" and "k mod sz = 0"
  shows "mv_cast (h\<lparr>mem := mem h @ [replicate k 0]\<rparr>) (length (mem h)) f = Inr (VView (length (mem h)) f)"
  using assms by (simp add: mv_cast_def bytes_at_def fmt_info_table)

lemma define_local_zero:
  assumes "fmt dt = Some f" and "map_of fmt_table f = Some (cl, sz)"
    and "0 \<le> n" and "(nat n * itemsize dt) mod sz = 0"
  shows "define_local ext ws dt (LTuple [LStr name, LInt n]) h
         = Inr (VList (length (lists h)),
                h\<lparr>lists := lists h @ [replicate ws (VView (length (mem h)) f)],
                  mem := mem h @ [replicate (nat n * itemsize dt) 0]\<rparr>)"
proof -
  have k: "nat (n * int (itemsize dt)) = nat n * itemsize dt"
    using assms(3) by (simp add: nat_mult_distrib)
  have neg: "\<not> n * int (itemsize dt) < 0"
    using assms(3) by (simp add: mult_nonneg_nonneg not_less)
  show ?thesis
    using assms(1) neg mv_cast_fresh [OF assms(2,4), of h]
    by (simp add: define_local_def nthE_def py_index_def lit_binop_def alloc_bytes_def alloc_list_def k)
qed

text \<open>
  C9. In every context (whatever earlier coordinates or earlier instructions wrote, and
  every coordinate starts with an empty \<^verbatim>\<open>ul\<close>), a DEFINE\_LOCAL instruction of \<open>n\<close>
  elements binds its position to a list of \<open>ws\<close> views of one bytearray that did not
  exist before the instruction, that holds \<open>n * itemsize\<close> zero bytes, and whose
  creation leaves every existing bytearray as it was.
\<close>

theorem define_local_fresh_zero:
  assumes "nthE prog (pc c) = Inr (DEFINE_LOCAL, Some dt, [], LTuple [LStr name, LInt n])"
    and "fmt dt = Some f" and "map_of fmt_table f = Some (cl, sz)"
    and "0 \<le> n" and "(nat n * itemsize dt) mod sz = 0"
  shows "\<exists>c' a b. step ext ws warp idxs prog c = Inr c'
           \<and> ul c' (pc c) = Some (VList a)
           \<and> list_at (hp c') a = Inr (replicate ws (VView b f))
           \<and> b = length (mem (hp c))
           \<and> bytes_at (hp c') b = Inr (replicate (nat n * itemsize dt) 0)
           \<and> take (length (mem (hp c))) (mem (hp c')) = mem (hp c)
           \<and> ul (init_ctx bufs vals (hp c') :: 'a ctx) = Map.empty"
proof -
  let ?h = "hp c"
  let ?h' = "?h\<lparr>lists := lists ?h @ [replicate ws (VView (length (mem ?h)) f)],
                  mem := mem ?h @ [replicate (nat n * itemsize dt) 0]\<rparr>"
  let ?c' = "c\<lparr>ul := (ul c)(pc c \<mapsto> VList (length (lists ?h))), dl := (dl c)(pc c \<mapsto> dt),
               pbufs := pbufs c, pvals := pvals c, hp := ?h'\<rparr>\<lparr>pc := pc c + 1\<rparr>"
  have "step ext ws warp idxs prog c = Inr ?c'"
    using assms(1) define_local_zero [OF assms(2-5), of ext ws name ?h]
    by (simp add: step_def dispatch_def exec_uop_def keep_def finish_def)
  moreover have "list_at ?h' (length (lists ?h)) = Inr (replicate ws (VView (length (mem ?h)) f))"
    by (simp add: list_at_def)
  moreover have "bytes_at ?h' (length (mem ?h)) = Inr (replicate (nat n * itemsize dt) 0)"
    by (simp add: bytes_at_def)
  ultimately show ?thesis
    by (intro exI [of _ ?c'] exI [of _ "length (lists ?h)"] exI [of _ "length (mem ?h)"])
       (simp add: init_ctx_def)
qed

theorem define_local_fresh_zero_witness:
  "\<exists>c' a b. step ints_ext 2 [[0, 0, 0], [0, 0, 1]] [0, 0, 0]
              [(DEFINE_LOCAL, Some dtypes_int32, [], LTuple [LStr ''temp'', LInt 2])]
              (init_ctx [0] [] \<lparr>lists = [], mem = [[1, 2, 3, 4]]\<rparr>) = Inr c'
           \<and> ul c' 0 = Some (VList a)
           \<and> list_at (hp c') a = Inr (replicate 2 (VView b CHR ''i''))
           \<and> b = 1
           \<and> bytes_at (hp c') b = Inr (replicate 8 0)
           \<and> take 1 (mem (hp c')) = [[1, 2, 3, 4]]"
proof -
  let ?prog = "[(DEFINE_LOCAL, Some dtypes_int32, [], LTuple [LStr ''temp'', LInt 2])] :: unit uop list"
  let ?c = "init_ctx [0] [] \<lparr>lists = [], mem = [[1, 2, 3, 4]]\<rparr> :: unit ctx"
  have 1: "nthE ?prog (pc ?c) = Inr (DEFINE_LOCAL, Some dtypes_int32, [], LTuple [LStr ''temp'', LInt 2])"
    by (simp add: nthE_def py_index_def init_ctx_def)
  have 2: "fmt dtypes_int32 = Some CHR ''i''" by (simp add: dtypes_int32_def)
  have 3: "map_of fmt_table CHR ''i'' = Some (FSigned, 4)" by (simp add: fmt_table_def)
  have 4: "(0::int) \<le> 2" by simp
  have 5: "(nat 2 * itemsize dtypes_int32) mod 4 = 0" by (simp add: dtypes_int32_def)
  show ?thesis
    using define_local_fresh_zero [OF 1 2 3 4 5, of ints_ext 2 "[[0, 0, 0], [0, 0, 1]]" "[0, 0, 0]" "[]" "[]"]
    by (simp add: init_ctx_def dtypes_int32_def)
qed

subsection \<open>Reading and writing one element\<close>

lemma load_item_int:
  assumes "py_len h m = Inr n"
  shows "load_item ext h m (VInt i)
         = (if i < 0 \<or> int n \<le> i then Inl LoadOutOfBounds else py_getitem ext h m i)"
  using assms by (simp add: load_item_def lit_cmp_def)


lemma py_index_in_range: "0 \<le> i \<Longrightarrow> i < int n \<Longrightarrow> py_index n i = Inr (nat i)"
  by (simp add: py_index_def)

lemma unpack_item_ok:
  "fmt_info bad c = Inr (cl, sz) \<Longrightarrow> \<exists>x. unpack_item ext bad c bs = Inr x"
  by (cases cl) (simp_all add: unpack_item_def)

lemma py_getitem_in_range:
  assumes "py_len h m = Inr n" and "0 \<le> i" and "i < int n"
  shows "\<exists>x. py_getitem ext h m i = Inr x"
  using assms
proof (induction h m rule: py_len.induct)
  case (1 h a)
  then show ?case
    by (auto simp: bindE_eq_Inr nthE_def py_index_in_range)
next
  case (2 h b c)
  then obtain bs cl sz where bs: "bytes_at h b = Inr bs" and f: "fmt_info ValueError c = Inr (cl, sz)"
    and n: "n = length bs div sz"
    by (auto simp: mv_len_def bindE_eq_Inr)
  from unpack_item_ok [OF f] obtain x
    where "unpack_item ext ValueError c (item_bytes sz (nat i) bs) = Inr x" by blast
  with bs f n 2 show ?case
    by (simp add: py_index_in_range)
next
  case (3 h s)
  then show ?case by (simp add: nthE_def py_index_in_range)
next
  case (4 h t)
  then show ?case by (simp add: nthE_def py_index_in_range)
qed simp_all

subsection \<open>Image loads\<close>

lemma image_oob_ints:
  assumes "nthE shp 0 = Inr hh" and "nthE shp 1 = Inr w"
  shows "image_oob ext shp (VInt x) (VInt y) = Inr (x < 0 \<or> w \<le> x \<or> y < 0 \<or> hh \<le> y)"
  using assms by (simp add: image_oob_def lit_cmp_def)

lemma image_offset_ints:
  assumes "nthE shp 1 = Inr w"
  shows "image_offset ext shp (VInt x) (VInt y) j = Inr (VInt (x * 4 + y * w * 4 + int j))"
  using assms by (simp add: image_offset_def lit_binop_def)

lemma image_load_lane_ints:
  assumes "nthE shp 0 = Inr hh" and "nthE shp 1 = Inr w"
  shows "image_load_lane ext h shp j (m, VInt x, VInt y) = texel ext h hh w j (m, x, y)"
  by (simp add: image_load_lane_def texel_def image_oob_ints [OF assms] image_offset_ints [OF assms(2)])

lemma zip_lanes_ints:
  "zip ms (zip (map VInt xs) (map VInt ys)) = map (\<lambda>(m, x, y). (m, VInt x, VInt y)) (zip ms (zip xs ys))"
proof (induction ms arbitrary: xs ys)
  case Nil
  show ?case by simp
next
  case (Cons m ms)
  show ?case
    by (cases xs; cases ys) (simp_all add: Cons.IH)
qed

lemma image_load_ints:
  assumes "nthE shp 0 = Inr hh" and "nthE shp 1 = Inr w"
    and "nthE inp 0 = Inr src" and "py_iter ext h src = Inr ms"
    and "nthE inp 1 = Inr xy"
    and "py_getitem ext h xy 0 = Inr oxs" and "py_iter ext h oxs = Inr (map VInt xs)"
    and "py_getitem ext h xy 1 = Inr oys" and "py_iter ext h oys = Inr (map VInt ys)"
  shows "image_load ext h shp inp j = mapE (texel ext h hh w j) (zip ms (zip xs ys))"
proof -
  have "mapE (image_load_lane ext h shp j) (zip ms (zip (map VInt xs) (map VInt ys)))
        = mapE (texel ext h hh w j) (zip ms (zip xs ys))"
    unfolding zip_lanes_ints mapE_map
    by (rule mapE_cong_set) (auto simp: image_load_lane_ints [OF assms(1,2)])
  then show ?thesis
    using assms(3-9) by (simp add: image_load_def)
qed

lemma texel_inside:
  assumes "0 \<le> x" and "x < width" and "0 \<le> y" and "y < height"
    and "py_len h m = Inr len" and "x * 4 + y * width * 4 + 3 < int len" and "j < 4"
  shows "\<exists>v. texel ext h height width j (m, x, y) = Inr v
            \<and> py_getitem ext h m (x * 4 + y * width * 4 + int j) = Inr v"
proof -
  let ?off = "x * 4 + y * width * 4 + int j"
  from assms(1-3) have "0 \<le> y * width" by simp
  with assms(1) have lo: "0 \<le> ?off" by simp
  from assms(6,7) have hi: "?off < int len" by simp
  from py_getitem_in_range [OF assms(5) lo hi] obtain v
    where v: "py_getitem ext h m ?off = Inr v" by blast
  have "texel ext h height width j (m, x, y) = load_item ext h m (VInt ?off)"
    using assms(1-4) by (simp add: texel_def)
  also have "\<dots> = py_getitem ext h m ?off"
    using lo hi by (simp add: load_item_int [OF assms(5)])
  finally show ?thesis using v by simp
qed

lemma texel_outside:
  assumes "x < 0 \<or> width \<le> x \<or> y < 0 \<or> height \<le> y"
  shows "texel ext h height width j (m, x, y) = Inr (VInt 0)"
  using assms by (auto simp: texel_def)

lemma mapE_all_Inr:
  assumes "\<forall>x \<in> set xs. \<exists>y. f x = Inr y"
  shows "\<exists>ys. mapE f xs = Inr ys"
  using assms
proof (induction xs)
  case Nil
  show ?case by simp
next
  case (Cons x xs)
  then obtain y ys where "f x = Inr y" "mapE f xs = Inr ys" by auto
  then show ?case by simp
qed

lemma mapE_nth:
  assumes "mapE f xs = Inr ys" and "k < length xs"
  shows "f (xs ! k) = Inr (ys ! k)"
  using assms by (auto simp: mapE_eq_Inr list_all2_conv_all_nth)

text \<open>
  C5. A LOAD whose first operand has an image type of shape (height, width, ...), with
  four components, buffers \<open>ms\<close> and integer coordinates \<open>xs\<close>, \<open>ys\<close>, where every lane
  whose (x, y) lies inside the image has its four texel offsets below the length of its
  buffer: the LOAD returns four new lists \<open>rets\<close>, one per component \<open>j\<close>, with one
  element per lane; the element of a lane whose (x, y) lies outside the width and height
  is 0, whatever the lane's buffer is, and the element of every other lane is the element
  \<open>m[x*4 + y*width*4 + j]\<close> of the lane's buffer.
\<close>

theorem image_load_zero_outside:
  assumes "nthE dtp 0 = Inr d0" and "shape d0 = Some shp"
    and "nthE shp 0 = Inr height" and "nthE shp 1 = Inr width"
    and "count dt = 4"
    and "nthE inp 0 = Inr src" and "py_iter ext h src = Inr ms"
    and "nthE inp 1 = Inr xy"
    and "py_getitem ext h xy 0 = Inr oxs" and "py_iter ext h oxs = Inr (map VInt xs)"
    and "py_getitem ext h xy 1 = Inr oys" and "py_iter ext h oys = Inr (map VInt ys)"
    and "n = min (length ms) (min (length xs) (length ys))"
    and "\<forall>l<n. 0 \<le> xs ! l \<and> xs ! l < width \<and> 0 \<le> ys ! l \<and> ys ! l < height \<longrightarrow>
           (\<exists>len. py_len h (ms ! l) = Inr len \<and> xs ! l * 4 + ys ! l * width * 4 + 3 < int len)"
  shows "\<exists>rets. exec_load ext dt inp dtp h = Inr (alloc_nested h rets) \<and> length rets = 4
           \<and> (\<forall>j<4. length (rets ! j) = n
                \<and> (\<forall>l<n. if xs ! l < 0 \<or> width \<le> xs ! l \<or> ys ! l < 0 \<or> height \<le> ys ! l
                          then rets ! j ! l = VInt 0
                          else py_getitem ext h (ms ! l) (xs ! l * 4 + ys ! l * width * 4 + int j)
                               = Inr (rets ! j ! l)))"
proof -
  let ?lanes = "zip ms (zip xs ys)"
  have len: "length ?lanes = n" using assms(13) by simp
  have lane: "?lanes ! l = (ms ! l, xs ! l, ys ! l)" if "l < n" for l
    using that assms(13) by simp
  have each: "\<exists>v. texel ext h height width j (?lanes ! l) = Inr v
                \<and> (if xs ! l < 0 \<or> width \<le> xs ! l \<or> ys ! l < 0 \<or> height \<le> ys ! l
                    then v = VInt 0
                    else py_getitem ext h (ms ! l) (xs ! l * 4 + ys ! l * width * 4 + int j) = Inr v)"
    if l: "l < n" and j: "j < 4" for l j
  proof (cases "xs ! l < 0 \<or> width \<le> xs ! l \<or> ys ! l < 0 \<or> height \<le> ys ! l")
    case True
    then show ?thesis
      using texel_outside [OF True, of ext h j "ms ! l"] by (simp add: lane [OF l])
  next
    case False
    with assms(14) l obtain k where k: "py_len h (ms ! l) = Inr k"
      "xs ! l * 4 + ys ! l * width * 4 + 3 < int k" by force
    from False have "0 \<le> xs ! l" "xs ! l < width" "0 \<le> ys ! l" "ys ! l < height" by simp_all
    from texel_inside [OF this k j, of ext] False show ?thesis
      by (simp add: lane [OF l])
  qed
  have row: "\<exists>r. mapE (texel ext h height width j) ?lanes = Inr r" if j: "j < 4" for j
  proof (rule mapE_all_Inr, rule ballI)
    fix p assume "p \<in> set ?lanes"
    then obtain l where l: "l < length ?lanes" and p: "p = ?lanes ! l"
      by (auto simp: in_set_conv_nth)
    from l have "l < n" unfolding assms(13) by simp
    from each [OF this j] p show "\<exists>v. texel ext h height width j p = Inr v" by auto
  qed
  have "\<exists>rets. mapE (\<lambda>j. mapE (texel ext h height width j) ?lanes) [0..<4] = Inr rets"
    by (rule mapE_all_Inr) (use row in auto)
  then obtain rets where rets: "mapE (\<lambda>j. mapE (texel ext h height width j) ?lanes) [0..<4] = Inr rets"
    by blast
  have l4: "length rets = 4" using mapE_length [OF rets] by simp
  have comp: "mapE (texel ext h height width j) ?lanes = Inr (rets ! j)" if j: "j < 4" for j
    using mapE_nth [OF rets, of j] j by simp
  have "mapE (image_load ext h shp inp) [0..<4]
        = mapE (\<lambda>j. mapE (texel ext h height width j) ?lanes) [0..<4]"
    by (rule mapE_cong_set) (rule image_load_ints [OF assms(3,4,6-12)])
  with rets have run: "exec_load ext dt inp dtp h = Inr (alloc_nested h rets)"
    using assms(1,2,5) by (simp add: exec_load_def is_image_def assertE_def)
  have body: "length (rets ! j) = n
        \<and> (\<forall>l<n. if xs ! l < 0 \<or> width \<le> xs ! l \<or> ys ! l < 0 \<or> height \<le> ys ! l
                 then rets ! j ! l = VInt 0
                 else py_getitem ext h (ms ! l) (xs ! l * 4 + ys ! l * width * 4 + int j)
                      = Inr (rets ! j ! l))" if j: "j < 4" for j
  proof (intro conjI allI impI)
    show "length (rets ! j) = n" using mapE_length [OF comp [OF j]] len by simp
  next
    fix l assume l: "l < n"
    with len have "l < length ?lanes" by simp
    from mapE_nth [OF comp [OF j] this]
    have "texel ext h height width j (?lanes ! l) = Inr (rets ! j ! l)" .
    with each [OF l j]
    show "if xs ! l < 0 \<or> width \<le> xs ! l \<or> ys ! l < 0 \<or> height \<le> ys ! l
          then rets ! j ! l = VInt 0
          else py_getitem ext h (ms ! l) (xs ! l * 4 + ys ! l * width * 4 + int j)
               = Inr (rets ! j ! l)"
      by (auto split: if_splits)
  qed
  from run l4 body show ?thesis by blast
qed

lemma list4: "length xs = 4 \<Longrightarrow> xs = [xs ! 0, xs ! 1, xs ! 2, xs ! 3]"
  by (cases xs; simp; cases "tl xs"; simp; cases "tl (tl xs)"; simp; cases "tl (tl (tl xs))"; simp)

lemma list2: "length xs = 2 \<Longrightarrow> xs = [xs ! 0, xs ! 1]"
  by (cases xs; simp; cases "tl xs"; simp)

lemma picture_heap_reads:
  "py_getitem ints_ext picture_heap (VView 0 CHR ''b'') 12 = Inr (VInt 112)"
  "py_getitem ints_ext picture_heap (VView 0 CHR ''b'') 13 = Inr (VInt 113)"
  "py_getitem ints_ext picture_heap (VView 0 CHR ''b'') 14 = Inr (VInt 114)"
  "py_getitem ints_ext picture_heap (VView 0 CHR ''b'') 15 = Inr (VInt 115)"
  by (simp_all add: picture_heap_def bytes_at_def fmt_info_def
      fmt_table_def py_index_def unpack_item_def item_bytes_def)

theorem image_load_zero_outside_witness:
  "exec_load ints_ext (dtypes_int8\<lparr>count := 4\<rparr>) [VList 0, VList 1] [image_dtype, dtypes_int32] picture_heap
   = Inr (alloc_nested picture_heap
            [[VInt 112, VInt 0], [VInt 113, VInt 0], [VInt 114, VInt 0], [VInt 115, VInt 0]])"
proof -
  let ?m = "VView 0 CHR ''b'' :: unit val"
  have hyps:
    "nthE [image_dtype, dtypes_int32] 0 = Inr image_dtype" "shape image_dtype = Some [2, 2, 4]"
    "nthE [2, 2, 4] 0 = Inr (2::int)" "nthE [2, 2, 4] 1 = Inr (2::int)"
    "count (dtypes_int8\<lparr>count := 4\<rparr>) = 4"
    "nthE [VList 0, VList 1 :: unit val] 0 = Inr (VList 0)"
    "py_iter ints_ext picture_heap (VList 0) = Inr [?m, ?m]"
    "nthE [VList 0, VList 1 :: unit val] 1 = Inr (VList 1)"
    "py_getitem ints_ext picture_heap (VList 1) 0 = Inr (VList 2)"
    "py_iter ints_ext picture_heap (VList 2) = Inr (map VInt [1, 5])"
    "py_getitem ints_ext picture_heap (VList 1) 1 = Inr (VList 3)"
    "py_iter ints_ext picture_heap (VList 3) = Inr (map VInt [1, 0])"
    "(2::nat) = min (length [?m, ?m]) (min (length [1, 5 :: int]) (length [1, 0 :: int]))"
    by (simp_all add: nthE_def py_index_def image_dtype_def picture_heap_def list_at_def)
  have plen: "py_len picture_heap ?m = Inr 16"
    by (simp add: picture_heap_def mv_len_def bytes_at_def fmt_info_def fmt_table_def)
  have inb: "\<forall>l<2. 0 \<le> [1, 5 :: int] ! l \<and> [1, 5 :: int] ! l < 2 \<and> 0 \<le> [1, 0 :: int] ! l \<and> [1, 0 :: int] ! l < 2 \<longrightarrow>
           (\<exists>len. py_len picture_heap ([?m, ?m] ! l) = Inr len
              \<and> [1, 5 :: int] ! l * 4 + [1, 0 :: int] ! l * 2 * 4 + 3 < int len)"
    using plen by (simp add: less_Suc_eq numeral_2_eq_2)
  from image_load_zero_outside [OF hyps inb] obtain rets
    where run: "exec_load ints_ext (dtypes_int8\<lparr>count := 4\<rparr>) [VList 0, VList 1]
                  [image_dtype, dtypes_int32] picture_heap = Inr (alloc_nested picture_heap rets)"
      and l4: "length rets = 4"
      and body: "\<forall>j<4. length (rets ! j) = 2
                \<and> (\<forall>l<2. if [1, 5 :: int] ! l < 0 \<or> 2 \<le> [1, 5 :: int] ! l \<or> [1, 0 :: int] ! l < 0 \<or> 2 \<le> [1, 0 :: int] ! l
                          then rets ! j ! l = VInt 0
                          else py_getitem ints_ext picture_heap ([?m, ?m] ! l)
                                 ([1, 5 :: int] ! l * 4 + [1, 0 :: int] ! l * 2 * 4 + int j) = Inr (rets ! j ! l))"
    by blast
  have comp: "rets ! j = [rets ! j ! 0, rets ! j ! 1]" if "j < 4" for j
    using body that by (intro list2) simp
  have in0: "py_getitem ints_ext picture_heap ?m (12 + int j) = Inr (rets ! j ! 0)" if "j < 4" for j
    using body [rule_format, OF that, THEN conjunct2, rule_format, of 0] by simp
  have out1: "rets ! j ! 1 = VInt 0" if "j < 4" for j
    using body [rule_format, OF that, THEN conjunct2, rule_format, of 1] by simp
  have "rets ! 0 ! 0 = VInt 112" "rets ! 1 ! 0 = VInt 113" "rets ! 2 ! 0 = VInt 114" "rets ! 3 ! 0 = VInt 115"
    using in0 [of 0] in0 [of 1] in0 [of 2] in0 [of 3]
    by (simp_all add: picture_heap_reads del: py_getitem.simps)
  with comp [of 0] comp [of 1] comp [of 2] comp [of 3] out1 [of 0] out1 [of 1] out1 [of 2] out1 [of 3]
  have "rets ! 0 = [VInt 112, VInt 0]" "rets ! 1 = [VInt 113, VInt 0]"
    "rets ! 2 = [VInt 114, VInt 0]" "rets ! 3 = [VInt 115, VInt 0]" by simp_all
  with list4 [OF l4] have "rets = [[VInt 112, VInt 0], [VInt 113, VInt 0], [VInt 114, VInt 0], [VInt 115, VInt 0]]"
    by simp
  with run show ?thesis by simp
qed

subsection \<open>Bounds checks of \<^verbatim>\<open>_load\<close> and \<^verbatim>\<open>_store\<close>\<close>
















subsection \<open>Stores\<close>












lemma Min_length_le:
  assumes "col \<in> set cols"
  shows "Min (set (map length cols)) \<le> length col"
  using assms by (intro Min_le) auto







end
